theory Spec2Isabelle
  imports Complex_Main
begin

section \<open>The HAL orb: data model\<close>

text \<open>
  Shallow embedding of \<^verbatim>\<open>src/src/HAL.tsx\<close> (and of the second copy of that file,
  \<^verbatim>\<open>src/unnamed/part_000\<close>, whose fragment shader has a different reflection block).
  JavaScript numbers and GLSL floats are modelled as \<^typ>\<open>real\<close>: rounding, NaN and
  infinities are outside the model. Three-element number arrays and GLSL vectors are
  tuples.
\<close>

type_synonym vec2 = "real \<times> real"
type_synonym vec3 = "real \<times> real \<times> real"
type_synonym vec4 = "real \<times> real \<times> real \<times> real"

text \<open>\<^verbatim>\<open>type HALPreset = 'idle' | 'listening' | 'thinking' | 'speaking' | 'asleep'\<close>\<close>

datatype HALPreset = Idle | Listening | Thinking | Speaking | Asleep

text \<open>
  \<^verbatim>\<open>Required<HALAnimationParams>\<close>: the seven animation fields, all present
  (an entry of the preset table, and the animation part of a target state).
\<close>

record AnimationParams =
  pulseSpeed :: real
  pulseAmount :: real
  cloudSpeed :: real
  cloudIntensity :: real
  highlightDrift :: real
  highlightSize :: real
  highlightPulse :: real

text \<open>
  \<^verbatim>\<open>interface HALAnimationParams\<close>, the \<^verbatim>\<open>animation\<close> prop: every field optional.
  \<open>None\<close> is an absent key. (A key present with the value \<^verbatim>\<open>undefined\<close>, which the
  object spread would copy, is outside the model.)
\<close>

record HALAnimationParams =
  pulseSpeed_opt :: "real option"
  pulseAmount_opt :: "real option"
  cloudSpeed_opt :: "real option"
  cloudIntensity_opt :: "real option"
  highlightDrift_opt :: "real option"
  highlightSize_opt :: "real option"
  highlightPulse_opt :: "real option"

text \<open>
  \<^verbatim>\<open>interface HALColorScheme\<close> as the \<^verbatim>\<open>colorScheme\<close> prop: each colour optional.
\<close>

record HALColorScheme =
  base_opt :: "vec3 option"
  mid_opt :: "vec3 option"
  highlight_opt :: "vec3 option"

text \<open>
  A colour scheme with its three colours present: the entries of \<^verbatim>\<open>PRESET_COLORS\<close>,
  the result of \<^verbatim>\<open>generateColorScheme\<close>, and the local \<^verbatim>\<open>colors\<close> of
  \<^verbatim>\<open>targetState\<close> (which the source reads with \<^verbatim>\<open>colors.base!\<close>).
\<close>

record ColorScheme =
  base :: vec3
  mid :: vec3
  highlight :: vec3

text \<open>
  The shape of \<^verbatim>\<open>targetState\<close> and of \<^verbatim>\<open>currentParamsRef.current\<close>:
  three colours and the seven animation fields, which the source spreads into the same
  object (\<^verbatim>\<open>...anim\<close>) and the model keeps as the field \<open>anim\<close>. The field
  \<open>highlight'\<close> is the source's \<^verbatim>\<open>highlight\<close>; the name without the prime is
  the field of \<open>ColorScheme\<close>. The uniforms of the shader (\<^verbatim>\<open>u_baseColor\<close>, ...)
  are these ten values.
\<close>

record Params =
  baseColor :: vec3
  midColor :: vec3
  highlight' :: vec3
  anim :: AnimationParams

section \<open>Preset tables\<close>

fun PRESET_ANIMATIONS :: "HALPreset \<Rightarrow> AnimationParams" where
  "PRESET_ANIMATIONS Idle =
     \<lparr>pulseSpeed = 0.8, pulseAmount = 0.02, cloudSpeed = 0.12, cloudIntensity = 0.35,
      highlightDrift = 0.25, highlightSize = 0.35, highlightPulse = 0.1\<rparr>"
| "PRESET_ANIMATIONS Listening =
     \<lparr>pulseSpeed = 2.5, pulseAmount = 0.05, cloudSpeed = 0.35, cloudIntensity = 0.5,
      highlightDrift = 0.0, highlightSize = 0.5, highlightPulse = 0.25\<rparr>"
| "PRESET_ANIMATIONS Thinking =
     \<lparr>pulseSpeed = 2.5, pulseAmount = 0.05, cloudSpeed = 0.4, cloudIntensity = 0.55,
      highlightDrift = 1.2, highlightSize = 0.65, highlightPulse = 0.12\<rparr>"
| "PRESET_ANIMATIONS Speaking =
     \<lparr>pulseSpeed = 6.0, pulseAmount = 0.08, cloudSpeed = 0.85, cloudIntensity = 0.7,
      highlightDrift = 3.2, highlightSize = 1.2, highlightPulse = 0.2\<rparr>"
| "PRESET_ANIMATIONS Asleep =
     \<lparr>pulseSpeed = 0.2, pulseAmount = 0.01, cloudSpeed = 0.04, cloudIntensity = 0.15,
      highlightDrift = 0.08, highlightSize = 0.12, highlightPulse = 0.02\<rparr>"

definition PRESET_COLORS_blue :: ColorScheme where
  "PRESET_COLORS_blue =
     \<lparr>base = (0.08, 0.18, 0.55), mid = (0.15, 0.35, 0.75), highlight = (0.5, 0.75, 1.0)\<rparr>"

definition PRESET_COLORS_red :: ColorScheme where
  "PRESET_COLORS_red =
     \<lparr>base = (0.6, 0.08, 0.15), mid = (0.85, 0.15, 0.25), highlight = (1.0, 0.5, 0.6)\<rparr>"

definition LISTENING_COLOR :: ColorScheme where
  "LISTENING_COLOR = PRESET_COLORS_red"

section \<open>Utility functions\<close>

subsection \<open>\<^verbatim>\<open>hexToRgb\<close>\<close>

text \<open>
  The character class \<^verbatim>\<open>[a-f\d]\<close> under the \<^verbatim>\<open>i\<close> flag: a decimal digit, or a
  letter a to f in either case.
\<close>

definition isHexChar :: "char \<Rightarrow> bool" where
  "isHexChar c =
     (let n = (of_char c :: nat)
      in (48 \<le> n \<and> n \<le> 57) \<or> (97 \<le> n \<and> n \<le> 102) \<or> (65 \<le> n \<and> n \<le> 70))"

text \<open>One group \<^verbatim>\<open>([a-f\d]{2})\<close>: two class characters, returned with the rest.\<close>

fun matchGroup :: "string \<Rightarrow> (string \<times> string) option" where
  "matchGroup (a # b # rest) =
     (if isHexChar a \<and> isHexChar b then Some ([a, b], rest) else None)"
| "matchGroup _ = None"

text \<open>
  The part \<^verbatim>\<open>([a-f\d]{2})([a-f\d]{2})([a-f\d]{2})$\<close> of the pattern: three groups,
  then the end of the input (no \<^verbatim>\<open>m\<close> flag, so \<^verbatim>\<open>$\<close> is the end of the string).
\<close>

definition matchGroups :: "string \<Rightarrow> (string \<times> string \<times> string) option" where
  "matchGroups s =
     (case matchGroup s of
        None \<Rightarrow> None
      | Some (g1, r1) \<Rightarrow>
          (case matchGroup r1 of
             None \<Rightarrow> None
           | Some (g2, r2) \<Rightarrow>
               (case matchGroup r2 of
                  None \<Rightarrow> None
                | Some (g3, r3) \<Rightarrow> (if r3 = [] then Some (g1, g2, g3) else None))))"

text \<open>
  \<^verbatim>\<open>/^#?([a-f\d]{2})([a-f\d]{2})([a-f\d]{2})$/i.exec(hex)\<close>: the greedy \<^verbatim>\<open>#?\<close>
  first consumes a leading \<^verbatim>\<open>#\<close>; when the rest then fails, the matcher backtracks
  and tries the groups at the start of the input.
\<close>

definition execHex :: "string \<Rightarrow> (string \<times> string \<times> string) option" where
  "execHex hex =
     (case hex of
        c # rest \<Rightarrow>
          (if c = CHR ''#''
           then (case matchGroups rest of Some gs \<Rightarrow> Some gs | None \<Rightarrow> matchGroups hex)
           else matchGroups hex)
      | [] \<Rightarrow> matchGroups hex)"

text \<open>
  The value of one hexadecimal digit. \<^verbatim>\<open>parseInt\<close> is only called on the groups of
  a match, which hold class characters only (lemma \<open>matchGroups_Some\<close>), so the last
  branch is never reached.
\<close>

definition hexDigitValue :: "char \<Rightarrow> nat" where
  "hexDigitValue c =
     (let n = (of_char c :: nat)
      in if 48 \<le> n \<and> n \<le> 57 then n - 48
         else if 97 \<le> n \<and> n \<le> 102 then n - 87
         else if 65 \<le> n \<and> n \<le> 70 then n - 55
         else 0)"

text \<open>\<^verbatim>\<open>parseInt(g, 16)\<close> on a string of hexadecimal digits.\<close>

definition parseInt16 :: "string \<Rightarrow> nat" where
  "parseInt16 g = foldl (\<lambda>acc c. acc * 16 + hexDigitValue c) 0 g"

definition hexToRgb :: "string \<Rightarrow> vec3" where
  "hexToRgb hex =
     (case execHex hex of
        None \<Rightarrow> (0.15, 0.35, 0.75)
      | Some (g1, g2, g3) \<Rightarrow>
          (real (parseInt16 g1) / 255, real (parseInt16 g2) / 255, real (parseInt16 g3) / 255))"

subsection \<open>\<^verbatim>\<open>generateColorScheme\<close>\<close>

definition generateColorScheme :: "vec3 \<Rightarrow> ColorScheme" where
  "generateColorScheme baseRgb =
     (case baseRgb of (r, g, b) \<Rightarrow>
        let luminance = 0.299 * r + 0.587 * g + 0.114 * b;
            mx = max (max r g) b;
            mn = min (min r g) b;
            saturation = (if mx = 0 then 0 else (mx - mn) / mx)
        in if saturation < 0.1
           then \<lparr>base = (luminance * 0.4, luminance * 0.4, luminance * 0.4),
                 mid = (luminance * 0.8, luminance * 0.8, luminance * 0.8),
                 highlight = (0.95, 0.95, 0.95)\<rparr>
           else \<lparr>base = (r * 0.5, g * 0.5, b * 0.5),
                 mid = (min 1 (r * 1.2), min 1 (g * 1.2), min 1 (b * 1.2)),
                 highlight = (min 1 (r * 0.5 + 0.5), min 1 (g * 0.5 + 0.5),
                              min 1 (b * 0.5 + 0.5))\<rparr>)"

subsection \<open>\<^verbatim>\<open>lerp\<close> and \<^verbatim>\<open>lerpColor\<close>\<close>

definition lerp :: "real \<Rightarrow> real \<Rightarrow> real \<Rightarrow> real" where
  "lerp a b t = a + (b - a) * t"

definition lerpColor :: "vec3 \<Rightarrow> vec3 \<Rightarrow> real \<Rightarrow> vec3" where
  "lerpColor a b t =
     (case a of (a0, a1, a2) \<Rightarrow> case b of (b0, b1, b2) \<Rightarrow>
        (lerp a0 b0 t, lerp a1 b1 t, lerp a2 b2 t))"

section \<open>The target state\<close>

text \<open>
  JavaScript truthiness of an optional string (\<^verbatim>\<open>presetColors?.[preset]\<close>,
  \<^verbatim>\<open>color\<close>): absent and the empty string are falsy.
\<close>

fun truthy :: "string option \<Rightarrow> bool" where
  "truthy None = False"
| "truthy (Some s) = (s \<noteq> [])"

text \<open>
  \<^verbatim>\<open>{ ...presetAnim, ...animation }\<close>: a field of the override wins when present.
\<close>

definition mergeAnim :: "AnimationParams \<Rightarrow> HALAnimationParams \<Rightarrow> AnimationParams" where
  "mergeAnim presetAnim animation =
     \<lparr>pulseSpeed = (case pulseSpeed_opt animation of Some v \<Rightarrow> v | None \<Rightarrow> pulseSpeed presetAnim),
      pulseAmount = (case pulseAmount_opt animation of Some v \<Rightarrow> v | None \<Rightarrow> pulseAmount presetAnim),
      cloudSpeed = (case cloudSpeed_opt animation of Some v \<Rightarrow> v | None \<Rightarrow> cloudSpeed presetAnim),
      cloudIntensity =
        (case cloudIntensity_opt animation of Some v \<Rightarrow> v | None \<Rightarrow> cloudIntensity presetAnim),
      highlightDrift =
        (case highlightDrift_opt animation of Some v \<Rightarrow> v | None \<Rightarrow> highlightDrift presetAnim),
      highlightSize =
        (case highlightSize_opt animation of Some v \<Rightarrow> v | None \<Rightarrow> highlightSize presetAnim),
      highlightPulse =
        (case highlightPulse_opt animation of Some v \<Rightarrow> v | None \<Rightarrow> highlightPulse presetAnim)\<rparr>"

text \<open>
  The colour chain of \<^verbatim>\<open>targetState\<close> (the \<^verbatim>\<open>if (colorScheme) ... else\<close> cascade
  that assigns the local \<^verbatim>\<open>colors\<close>), before the dimming step. \<open>presetColors\<close> is
  the sparse map of the \<^verbatim>\<open>presetColors\<close> prop (\<open>Map.empty\<close> when the prop is absent).
\<close>

definition resolveColors ::
  "HALPreset \<Rightarrow> string option \<Rightarrow> (HALPreset \<rightharpoonup> string) \<Rightarrow> HALColorScheme option \<Rightarrow> ColorScheme"
where
  "resolveColors preset color presetColors colorScheme =
     (case colorScheme of
        Some cs \<Rightarrow>
          \<lparr>base = (case base_opt cs of Some c \<Rightarrow> c | None \<Rightarrow> base PRESET_COLORS_blue),
           mid = (case mid_opt cs of Some c \<Rightarrow> c | None \<Rightarrow> mid PRESET_COLORS_blue),
           highlight =
             (case highlight_opt cs of Some c \<Rightarrow> c | None \<Rightarrow> highlight PRESET_COLORS_blue)\<rparr>
      | None \<Rightarrow>
          if preset = Listening then
            (let listeningHex = presetColors Listening
             in if truthy listeningHex
                then generateColorScheme (hexToRgb (the listeningHex))
                else LISTENING_COLOR)
          else if truthy (presetColors preset) then
            generateColorScheme (hexToRgb (the (presetColors preset)))
          else if truthy color then
            generateColorScheme (hexToRgb (the color))
          else PRESET_COLORS_blue)"

text \<open>\<^verbatim>\<open>colors.base!.map(c => c * 0.5)\<close> and its two siblings.\<close>

definition dim :: "vec3 \<Rightarrow> vec3" where
  "dim c = (case c of (r, g, b) \<Rightarrow> (r * 0.5, g * 0.5, b * 0.5))"

definition targetState ::
  "HALPreset \<Rightarrow> string option \<Rightarrow> (HALPreset \<rightharpoonup> string) \<Rightarrow> HALColorScheme option \<Rightarrow>
   HALAnimationParams \<Rightarrow> Params"
where
  "targetState preset color presetColors colorScheme animation =
     (let presetAnim = PRESET_ANIMATIONS preset;
          an = mergeAnim presetAnim animation;
          colors = resolveColors preset color presetColors colorScheme;
          colors' =
            (if preset = Asleep \<and> colorScheme = None
             then \<lparr>base = dim (base colors), mid = dim (mid colors),
                   highlight = dim (highlight colors)\<rparr>
             else colors)
      in \<lparr>baseColor = base colors', midColor = mid colors', highlight' = highlight colors',
          anim = an\<rparr>)"

text \<open>No overrides: an empty \<^verbatim>\<open>animation\<close> object (or none at all).\<close>

definition noAnimation :: HALAnimationParams where
  "noAnimation =
     \<lparr>pulseSpeed_opt = None, pulseAmount_opt = None, cloudSpeed_opt = None,
      cloudIntensity_opt = None, highlightDrift_opt = None, highlightSize_opt = None,
      highlightPulse_opt = None\<rparr>"

section \<open>One tick of the animation loop\<close>

text \<open>\<^verbatim>\<open>const t = 0.015 * transitionSpeed;\<close>\<close>

definition tickStep :: "real \<Rightarrow> real" where
  "tickStep transitionSpeed = 0.015 * transitionSpeed"

text \<open>
  The state update at the head of \<^verbatim>\<open>render\<close>: \<^verbatim>\<open>current\<close> is updated in place
  from \<^verbatim>\<open>targetState\<close>; the model returns the updated state.
\<close>

definition advance :: "Params \<Rightarrow> Params \<Rightarrow> real \<Rightarrow> Params" where
  "advance current target transitionSpeed =
     (let t = tickStep transitionSpeed
      in \<lparr>baseColor = lerpColor (baseColor current) (baseColor target) t,
          midColor = lerpColor (midColor current) (midColor target) t,
          highlight' = lerpColor (highlight' current) (highlight' target) t,
          anim =
            \<lparr>pulseSpeed = pulseSpeed (anim target),
             pulseAmount = lerp (pulseAmount (anim current)) (pulseAmount (anim target)) t,
             cloudSpeed = cloudSpeed (anim target),
             cloudIntensity = lerp (cloudIntensity (anim current)) (cloudIntensity (anim target)) t,
             highlightDrift = highlightDrift (anim target),
             highlightSize = lerp (highlightSize (anim current)) (highlightSize (anim target)) t,
             highlightPulse = lerp (highlightPulse (anim current)) (highlightPulse (anim target)) t\<rparr>\<rparr>)"

section \<open>GLSL built-ins\<close>

text \<open>
  The built-in functions the fragment shader calls, over the reals, by their defining
  formulas in the GLSL ES specification. Where GLSL leaves a result undefined
  (\<^verbatim>\<open>normalize\<close> of the zero vector, \<^verbatim>\<open>smoothstep\<close> with \<^verbatim>\<open>edge0 >= edge1\<close>,
  \<^verbatim>\<open>pow\<close> of a negative base, \<^verbatim>\<open>atan(0, 0)\<close>) the model computes the formula
  anyway; the shader calls \<^verbatim>\<open>smoothstep\<close> with descending edges once (the ambient
  occlusion), where the formula is what implementations compute.
\<close>

text \<open>GLSL \<^verbatim>\<open>clamp(x, lo, hi)\<close>, which is \<^verbatim>\<open>min(max(x, lo), hi)\<close>.\<close>

definition clamp :: "real \<Rightarrow> real \<Rightarrow> real \<Rightarrow> real" where
  "clamp x lo hi = min (max x lo) hi"

definition floorR :: "real \<Rightarrow> real" where
  "floorR x = of_int \<lfloor>x\<rfloor>"

definition step :: "real \<Rightarrow> real \<Rightarrow> real" where
  "step edge x = (if x < edge then 0 else 1)"

definition smoothstep :: "real \<Rightarrow> real \<Rightarrow> real \<Rightarrow> real" where
  "smoothstep edge0 edge1 x =
     (let t = clamp ((x - edge0) / (edge1 - edge0)) 0 1 in t * t * (3 - 2 * t))"

definition mix :: "real \<Rightarrow> real \<Rightarrow> real \<Rightarrow> real" where
  "mix x y a = x * (1 - a) + y * a"

definition pow :: "real \<Rightarrow> real \<Rightarrow> real" where
  "pow x y = x powr y"

text \<open>\<^verbatim>\<open>atan(y, x)\<close>, the angle of the point (x, y).\<close>

definition atan2 :: "real \<Rightarrow> real \<Rightarrow> real" where
  "atan2 y x =
     (if 0 < x then arctan (y / x)
      else if x < 0 then (if 0 \<le> y then arctan (y / x) + pi else arctan (y / x) - pi)
      else if 0 < y then pi / 2
      else if y < 0 then - (pi / 2)
      else 0)"

definition dot2 :: "vec2 \<Rightarrow> vec2 \<Rightarrow> real" where
  "dot2 a b = (case a of (ax, ay) \<Rightarrow> case b of (bx, by) \<Rightarrow> ax * bx + ay * by)"

definition dot3 :: "vec3 \<Rightarrow> vec3 \<Rightarrow> real" where
  "dot3 a b =
     (case a of (ax, ay, az) \<Rightarrow> case b of (bx, by, bz) \<Rightarrow> ax * bx + ay * by + az * bz)"

definition dot4 :: "vec4 \<Rightarrow> vec4 \<Rightarrow> real" where
  "dot4 a b =
     (case a of (ax, ay, az, aw) \<Rightarrow> case b of (bx, by, bz, bw) \<Rightarrow>
        ax * bx + ay * by + az * bz + aw * bw)"

definition length2 :: "vec2 \<Rightarrow> real" where
  "length2 v = sqrt (dot2 v v)"

definition length3 :: "vec3 \<Rightarrow> real" where
  "length3 v = sqrt (dot3 v v)"

definition normalize3 :: "vec3 \<Rightarrow> vec3" where
  "normalize3 v = (case v of (x, y, z) \<Rightarrow> (x / length3 v, y / length3 v, z / length3 v))"

text \<open>A scalar function applied to each component, and a vector scaled by a scalar.\<close>

definition map4 :: "(real \<Rightarrow> real) \<Rightarrow> vec4 \<Rightarrow> vec4" where
  "map4 f v = (case v of (x, y, z, w) \<Rightarrow> (f x, f y, f z, f w))"

definition add4 :: "vec4 \<Rightarrow> vec4 \<Rightarrow> vec4" where
  "add4 a b =
     (case a of (ax, ay, az, aw) \<Rightarrow> case b of (bx, by, bz, bw) \<Rightarrow>
        (ax + bx, ay + by, az + bz, aw + bw))"

definition scale3 :: "vec3 \<Rightarrow> real \<Rightarrow> vec3" where
  "scale3 v s = (case v of (x, y, z) \<Rightarrow> (x * s, y * s, z * s))"

section \<open>The noise functions of the shader\<close>

text \<open>
  Lines 223 to 298 of both copies of the file, the same text in each.
  \<^verbatim>\<open>mod289\<close>, \<^verbatim>\<open>permute\<close> and \<^verbatim>\<open>taylorInvSqrt\<close> act on each component; they are
  given on one component and mapped.
\<close>

definition mod289 :: "real \<Rightarrow> real" where
  "mod289 x = x - floorR (x * (1 / 289)) * 289"

definition permute :: "real \<Rightarrow> real" where
  "permute x = mod289 (((x * 34) + 1) * x)"

definition taylorInvSqrt :: "real \<Rightarrow> real" where
  "taylorInvSqrt r = 1.79284291400159 - 0.85373472095314 * r"

text \<open>
  \<^verbatim>\<open>float snoise(vec3 v)\<close>. The constants are \<^verbatim>\<open>C = (1/6, 1/3)\<close> and
  \<^verbatim>\<open>D = (0, 0.5, 1, 2)\<close>; swizzles are written out. The source reassigns \<^verbatim>\<open>i\<close>
  (\<^verbatim>\<open>i = mod289(i)\<close>) and the \<^verbatim>\<open>p0..p3\<close> (\<^verbatim>\<open>p0 *= norm.x\<close>); the model gives the
  new values new names (\<open>im\<close>, \<open>q0..q3\<close>); \<open>n7\<close> is the source's \<^verbatim>\<open>n_\<close>.
\<close>

definition snoise :: "vec3 \<Rightarrow> real" where
  "snoise v =
     (case v of (vx, vy, vz) \<Rightarrow>
      let Cx = 1 / 6; Cy = 1 / 3;
          Dx = 0; Dy = 0.5; Dz = 1; Dw = 2;
          sv = dot3 v (Cy, Cy, Cy);
          ix = floorR (vx + sv); iy = floorR (vy + sv); iz = floorR (vz + sv);
          si = dot3 (ix, iy, iz) (Cx, Cx, Cx);
          x0x = vx - ix + si; x0y = vy - iy + si; x0z = vz - iz + si;
          gx = step x0y x0x; gy = step x0z x0y; gz = step x0x x0z;
          lx = 1 - gx; ly = 1 - gy; lz = 1 - gz;
          i1x = min gx lz; i1y = min gy lx; i1z = min gz ly;
          i2x = max gx lz; i2y = max gy lx; i2z = max gz ly;
          x0 = (x0x, x0y, x0z);
          x1 = (x0x - i1x + Cx, x0y - i1y + Cx, x0z - i1z + Cx);
          x2 = (x0x - i2x + Cy, x0y - i2y + Cy, x0z - i2z + Cy);
          x3 = (x0x - Dy, x0y - Dy, x0z - Dy);
          imx = mod289 ix; imy = mod289 iy; imz = mod289 iz;
          pz = map4 permute (map4 (\<lambda>c. imz + c) (0, i1z, i2z, 1));
          py = map4 permute (add4 (map4 (\<lambda>c. c + imy) pz) (0, i1y, i2y, 1));
          p = map4 permute (add4 (map4 (\<lambda>c. c + imx) py) (0, i1x, i2x, 1));
          n7 = 0.142857142857;
          nsx = n7 * Dw - Dx; nsy = n7 * Dy - Dz; nsz = n7 * Dz - Dx;
          (j1, j2, j3, j4) = map4 (\<lambda>c. c - 49 * floorR (c * nsz * nsz)) p;
          xf1 = floorR (j1 * nsz); xf2 = floorR (j2 * nsz);
          xf3 = floorR (j3 * nsz); xf4 = floorR (j4 * nsz);
          yf1 = floorR (j1 - 7 * xf1); yf2 = floorR (j2 - 7 * xf2);
          yf3 = floorR (j3 - 7 * xf3); yf4 = floorR (j4 - 7 * xf4);
          xx = xf1 * nsx + nsy; xy = xf2 * nsx + nsy; xz = xf3 * nsx + nsy; xw = xf4 * nsx + nsy;
          yx = yf1 * nsx + nsy; yy = yf2 * nsx + nsy; yz = yf3 * nsx + nsy; yw = yf4 * nsx + nsy;
          hx = 1 - abs xx - abs yx; hy = 1 - abs xy - abs yy;
          hz = 1 - abs xz - abs yz; hw = 1 - abs xw - abs yw;
          (b0x, b0y, b0z, b0w) = (xx, xy, yx, yy);
          (b1x, b1y, b1z, b1w) = (xz, xw, yz, yw);
          (s0x, s0y, s0z, s0w) = map4 (\<lambda>c. floorR c * 2 + 1) (b0x, b0y, b0z, b0w);
          (s1x, s1y, s1z, s1w) = map4 (\<lambda>c. floorR c * 2 + 1) (b1x, b1y, b1z, b1w);
          (shx, shy, shz, shw) = map4 (\<lambda>c. - step c 0) (hx, hy, hz, hw);
          (a0x, a0y, a0z, a0w) =
            (b0x + s0x * shx, b0z + s0z * shx, b0y + s0y * shy, b0w + s0w * shy);
          (a1x, a1y, a1z, a1w) =
            (b1x + s1x * shz, b1z + s1z * shz, b1y + s1y * shw, b1w + s1w * shw);
          p0 = (a0x, a0y, hx); p1 = (a0z, a0w, hy);
          p2 = (a1x, a1y, hz); p3 = (a1z, a1w, hw);
          (normx, normy, normz, normw) =
            map4 taylorInvSqrt (dot3 p0 p0, dot3 p1 p1, dot3 p2 p2, dot3 p3 p3);
          q0 = scale3 p0 normx; q1 = scale3 p1 normy;
          q2 = scale3 p2 normz; q3 = scale3 p3 normw;
          (m1, m2, m3, m4) =
            map4 (\<lambda>c. max (0.6 - c) 0) (dot3 x0 x0, dot3 x1 x1, dot3 x2 x2, dot3 x3 x3);
          (mm1, mm2, mm3, mm4) = (m1 * m1, m2 * m2, m3 * m3, m4 * m4)
      in 42 * dot4 (mm1 * mm1, mm2 * mm2, mm3 * mm3, mm4 * mm4)
                   (dot3 q0 x0, dot3 q1 x1, dot3 q2 x2, dot3 q3 x3))"

text \<open>
  \<^verbatim>\<open>float fbm(vec3 p)\<close>: the loop \<^verbatim>\<open>for (int i = 0; i < 6; i++)\<close> as a recursion on
  the number of iterations left, carrying \<^verbatim>\<open>value\<close>, \<^verbatim>\<open>amplitude\<close>, \<^verbatim>\<open>frequency\<close>.
\<close>

fun fbm_loop :: "nat \<Rightarrow> vec3 \<Rightarrow> real \<Rightarrow> real \<Rightarrow> real \<Rightarrow> real" where
  "fbm_loop 0 p val amplitude frequency = val"
| "fbm_loop (Suc n) p val amplitude frequency =
     fbm_loop n p (val + amplitude * snoise (scale3 p frequency)) (amplitude * 0.5)
       (frequency * 2.0)"

definition fbm :: "vec3 \<Rightarrow> real" where
  "fbm p = fbm_loop 6 p 0.0 0.5 1.0"

section \<open>The fragment shader: the part both copies share\<close>

text \<open>
  \<^verbatim>\<open>void main()\<close> up to the reflection block is the same text in
  \<^verbatim>\<open>src/src/HAL.tsx\<close> (lines 300 to 413) and in \<^verbatim>\<open>src/unnamed/part_000\<close>
  (lines 322 to 435). Each local of \<^verbatim>\<open>main\<close> that later code reads is a function
  here, of the pixel \<open>uv\<close> (the source's \<^verbatim>\<open>uv = v_uv * 2.0 - 1.0\<close>), the uniforms
  \<open>u\<close> (colours and animation fields) and \<^verbatim>\<open>u_time\<close>.
\<close>

definition sphereRadius :: real where
  "sphereRadius = 0.72"

definition edgeSoftness :: real where
  "edgeSoftness = 0.008"

definition sphere :: "vec2 \<Rightarrow> real" where
  "sphere uv = 1.0 - smoothstep (sphereRadius - edgeSoftness) sphereRadius (length2 uv)"

definition sphereZ :: "vec2 \<Rightarrow> real" where
  "sphereZ uv =
     (case uv of (x, y) \<Rightarrow>
        sqrt (max 0.0 (1.0 - (x * x + y * y) / (sphereRadius * sphereRadius))))"

definition normal :: "vec2 \<Rightarrow> vec3" where
  "normal uv =
     (case uv of (x, y) \<Rightarrow> normalize3 (x / sphereRadius, y / sphereRadius, sphereZ uv))"

definition cloudPattern :: "vec2 \<Rightarrow> Params \<Rightarrow> real \<Rightarrow> real" where
  "cloudPattern uv u u_time =
     (case normal uv of (nx, ny, nz) \<Rightarrow>
      let theta = atan2 nx nz;
          phi = arccos (clamp ny (- 1.0) 1.0);
          cloudTime = u_time * cloudSpeed (anim u);
          cloudPos1 = (theta * 1.8 + cloudTime, phi * 1.8, cloudTime * 0.4);
          cloudPos2 = (theta * 1.2 - cloudTime * 0.6, phi * 1.2 + cloudTime * 0.25,
                       cloudTime * 0.25);
          cloudPos3 = (theta * 2.5 + cloudTime * 0.35, phi * 2.5 - cloudTime * 0.15,
                       cloudTime * 0.6);
          clouds1 = fbm cloudPos1 * 0.5 + 0.5;
          clouds2 = fbm cloudPos2 * 0.5 + 0.5;
          clouds3 = fbm (scale3 cloudPos3 0.6) * 0.5 + 0.5;
          cloudPattern0 = clouds1 * 0.5 + clouds2 * 0.35 + clouds3 * 0.15
      in smoothstep 0.25 0.75 cloudPattern0)"

definition highlightCenter :: "Params \<Rightarrow> real \<Rightarrow> vec2" where
  "highlightCenter u u_time =
     (let driftTime = u_time * highlightDrift (anim u);
          driftAmount = min (highlightDrift (anim u)) 1.0;
          driftOffset =
            (sin (driftTime * 0.8) * 0.3 + sin (driftTime * 1.4) * 0.15
               + sin (driftTime * 2.1) * 0.08,
             cos (driftTime * 0.6) * 0.25 + cos (driftTime * 1.2) * 0.1
               + cos (driftTime * 1.9) * 0.06);
          basePosition = (0.0, 0.15);
          driftPosition = (- 0.2 + fst driftOffset, 0.25 + snd driftOffset)
      in (mix (fst basePosition) (fst driftPosition) driftAmount,
          mix (snd basePosition) (snd driftPosition) driftAmount))"

definition currentHighlightSize :: "Params \<Rightarrow> real \<Rightarrow> real" where
  "currentHighlightSize u u_time =
     (let highlightPulseAmount =
            1.0 + sin (u_time * pulseSpeed (anim u) * 1.8) * highlightPulse (anim u)
                + sin (u_time * pulseSpeed (anim u) * 0.7) * highlightPulse (anim u) * 0.5
      in highlightSize (anim u) * highlightPulseAmount)"

definition lightDir :: "Params \<Rightarrow> real \<Rightarrow> vec3" where
  "lightDir u u_time =
     (case highlightCenter u u_time of (cx, cy) \<Rightarrow> normalize3 (cx, cy, 0.85))"

definition diffuse :: "vec2 \<Rightarrow> Params \<Rightarrow> real \<Rightarrow> real" where
  "diffuse uv u u_time = pow (max 0.0 (dot3 (normal uv) (lightDir u u_time))) 0.85"

definition viewDir :: vec3 where
  "viewDir = (0.0, 0.0, 1.0)"

definition halfDir :: "Params \<Rightarrow> real \<Rightarrow> vec3" where
  "halfDir u u_time =
     (case lightDir u u_time of (lx, ly, lz) \<Rightarrow> case viewDir of (vx, vy, vz) \<Rightarrow>
        normalize3 (lx + vx, ly + vy, lz + vz))"

definition specVSoft :: "vec2 \<Rightarrow> Params \<Rightarrow> real \<Rightarrow> real" where
  "specVSoft uv u u_time = pow (max 0.0 (dot3 (normal uv) (halfDir u u_time))) 4.0"

definition specSoft :: "vec2 \<Rightarrow> Params \<Rightarrow> real \<Rightarrow> real" where
  "specSoft uv u u_time = pow (max 0.0 (dot3 (normal uv) (halfDir u u_time))) 12.0"

definition specMed :: "vec2 \<Rightarrow> Params \<Rightarrow> real \<Rightarrow> real" where
  "specMed uv u u_time = pow (max 0.0 (dot3 (normal uv) (halfDir u u_time))) 40.0"

definition specSharp :: "vec2 \<Rightarrow> Params \<Rightarrow> real \<Rightarrow> real" where
  "specSharp uv u u_time = pow (max 0.0 (dot3 (normal uv) (halfDir u u_time))) 150.0"

definition specular :: "vec2 \<Rightarrow> Params \<Rightarrow> real \<Rightarrow> real" where
  "specular uv u u_time =
     specVSoft uv u u_time * currentHighlightSize u u_time * 0.4 +
     specSoft uv u u_time * currentHighlightSize u u_time * 0.5 +
     specMed uv u u_time * currentHighlightSize u u_time * 0.35 +
     specSharp uv u u_time * 0.6"

definition fresnel :: "vec2 \<Rightarrow> real" where
  "fresnel uv = pow (1.0 - max 0.0 (dot3 (normal uv) viewDir)) 4.0"

definition pulse :: "Params \<Rightarrow> real \<Rightarrow> real" where
  "pulse u u_time = 1.0 + sin (u_time * pulseSpeed (anim u)) * pulseAmount (anim u)"

text \<open>
  The colour composition, from \<^verbatim>\<open>// Color composition\<close> to \<^verbatim>\<open>// Bottom shadow\<close>.
  The source computes on \<^verbatim>\<open>vec3\<close>; every operation there is componentwise, with the
  same scalars on each channel, so the model gives one channel, as a function of that
  channel of \<^verbatim>\<open>u_baseColor\<close>, \<^verbatim>\<open>u_midColor\<close> and \<^verbatim>\<open>u_highlight\<close>. The successive
  values of \<^verbatim>\<open>color\<close> are \<open>color1\<close>, \<open>color2\<close>, ...
\<close>

definition colorChannel :: "vec2 \<Rightarrow> Params \<Rightarrow> real \<Rightarrow> real \<Rightarrow> real \<Rightarrow> real \<Rightarrow> real" where
  "colorChannel uv u u_time u_base u_mid u_high =
     (let dist = length2 uv;
          depthGradient = pow (sphereZ uv) 0.6;
          baseGradient = mix u_base u_mid depthGradient;
          cloudedColor0 =
            mix (u_base * 0.5) (u_mid * 1.3)
                (cloudPattern uv u u_time * cloudIntensity (anim u)
                   + (1.0 - cloudIntensity (anim u)) * 0.5);
          cloudedColor = mix baseGradient cloudedColor0 (cloudIntensity (anim u));
          color1 = cloudedColor * (0.35 + diffuse uv u u_time * 0.65);
          sss = pow (max 0.0 (1.0 - dist / sphereRadius)) 2.0 * 0.3;
          color2 = color1 + u_mid * sss * (0.6 + cloudPattern uv u u_time * 0.4);
          highlightColor = mix u_high 1.0 0.4;
          color3 = color2 + highlightColor * specular uv u u_time * 1.5;
          bloom = specVSoft uv u u_time * currentHighlightSize u u_time;
          color4 = color3 + u_high * bloom * 0.7;
          color5 = color4 + 1.0 * specSoft uv u u_time * currentHighlightSize u u_time * 0.3;
          color6 = color5 + u_high * fresnel uv * 0.2;
          innerGlow = pow (max 0.0 (1.0 - dist / sphereRadius)) 2.5;
          color7 = color6 + u_mid * innerGlow * 0.12;
          color8 = color7 * pulse u u_time;
          ao = smoothstep sphereRadius (sphereRadius * 0.4) dist;
          color9 = color8 * (ao * 0.4 + 0.6);
          bottomShadow = smoothstep (- 0.7) 0.4 (snd uv)
      in color9 * (bottomShadow * 0.3 + 0.7))"

text \<open>The \<^verbatim>\<open>vec3 color\<close> that reaches the reflection block.\<close>

definition sceneColor :: "vec2 \<Rightarrow> Params \<Rightarrow> real \<Rightarrow> vec3" where
  "sceneColor uv u u_time =
     (case baseColor u of (br, bg, bb) \<Rightarrow>
      case midColor u of (mr, mg, mb) \<Rightarrow>
      case highlight' u of (hr, hg, hb) \<Rightarrow>
        (colorChannel uv u u_time br mr hr,
         colorChannel uv u u_time bg mg hg,
         colorChannel uv u u_time bb mb hb))"

text \<open>\<^verbatim>\<open>color / (color + vec3(0.45)) * 1.35\<close>, on one channel and on the vector.\<close>

definition toneMap :: "real \<Rightarrow> real" where
  "toneMap c = c / (c + 0.45) * 1.35"

definition toneMap3 :: "vec3 \<Rightarrow> vec3" where
  "toneMap3 color = (case color of (r, g, b) \<Rightarrow> (toneMap r, toneMap g, toneMap b))"

text \<open>\<^verbatim>\<open>mix(color, vec3(1.0), a)\<close> with a scalar weight.\<close>

definition mixWhite :: "vec3 \<Rightarrow> real \<Rightarrow> vec3" where
  "mixWhite color a = (case color of (r, g, b) \<Rightarrow> (mix r 1.0 a, mix g 1.0 a, mix b 1.0 a))"

section \<open>The reflection block of \<^verbatim>\<open>src/src/HAL.tsx\<close>\<close>

text \<open>
  The local \<^verbatim>\<open>ref\<close> before \<^verbatim>\<open>ref = min(ref, 1.0) * u_reflections\<close>: three arcs and
  seven dashes, each a product of \<^verbatim>\<open>step\<close>s, summed with their weights.
\<close>

definition dash :: "vec2 \<Rightarrow> vec2 \<Rightarrow> vec2 \<Rightarrow> real" where
  "dash uv center halfSize =
     (case uv of (x, y) \<Rightarrow> case center of (cx, cy) \<Rightarrow> case halfSize of (hx, hy) \<Rightarrow>
        step (abs (x - cx)) hx * step (abs (y - cy)) hy)"

definition refShapes :: "vec2 \<Rightarrow> real" where
  "refShapes uv =
     (case uv of (x, y) \<Rightarrow>
      let topArcRadius = 0.52;
          topArcDist = length2 (x - 0.0, y - (- 0.08));
          topArc0 = step (topArcRadius - 0.025) topArcDist * step topArcDist (topArcRadius + 0.025);
          topArc1 = topArc0 * step 0.28 y;
          topArc = topArc1 * (step (- 0.38) x * step x 0.38);
          ref1 = 0.0 + topArc;
          leftArcRadius = 0.38;
          leftArcDist = length2 (x - 0.15, y - 0.0);
          leftArc0 = step (leftArcRadius - 0.018) leftArcDist
                     * step leftArcDist (leftArcRadius + 0.018);
          leftArc1 = leftArc0 * (step (- 0.42) x * step x (- 0.18));
          leftArc = leftArc1 * (step 0.0 y * step y 0.32);
          ref2 = ref1 + leftArc * 0.9;
          rightArcDist = length2 (x - (- 0.15), y - 0.0);
          rightArc0 = step (leftArcRadius - 0.018) rightArcDist
                      * step rightArcDist (leftArcRadius + 0.018);
          rightArc1 = rightArc0 * (step 0.18 x * step x 0.42);
          rightArc = rightArc1 * (step 0.0 y * step y 0.32);
          ref3 = ref2 + rightArc * 0.9;
          dash1 = dash uv (- 0.22, 0.42) (0.06, 0.018);
          ref4 = ref3 + dash1 * 0.85;
          dash2 = dash uv (0.22, 0.42) (0.06, 0.018);
          ref5 = ref4 + dash2 * 0.85;
          dash3 = dash uv (- 0.38, 0.18) (0.035, 0.012);
          ref6 = ref5 + dash3 * 0.7;
          dash4 = dash uv (0.38, 0.18) (0.035, 0.012);
          ref7 = ref6 + dash4 * 0.7;
          dash5 = dash uv (- 0.28, - 0.05) (0.025, 0.01);
          ref8 = ref7 + dash5 * 0.6;
          dash6 = dash uv (0.28, - 0.05) (0.025, 0.01);
          ref9 = ref8 + dash6 * 0.6;
          dash7 = dash uv (0.0, - 0.35) (0.04, 0.015)
      in ref9 + dash7 * 0.5)"

text \<open>The body of \<^verbatim>\<open>if (u_reflections > 0.0) { ... }\<close>: the new value of \<^verbatim>\<open>color\<close>.\<close>

definition reflectHard :: "vec2 \<Rightarrow> real \<Rightarrow> vec3 \<Rightarrow> vec3" where
  "reflectHard uv u_reflections color =
     (let ref = min (refShapes uv) 1.0 * u_reflections in mixWhite color ref)"

section \<open>The reflection block of \<^verbatim>\<open>src/unnamed/part_000\<close>\<close>

definition sdRoundRect :: "vec2 \<Rightarrow> vec2 \<Rightarrow> real \<Rightarrow> real" where
  "sdRoundRect p b r =
     (case p of (px, py) \<Rightarrow> case b of (bx, by) \<Rightarrow>
      let qx = abs px - bx; qy = abs py - by
      in length2 (max qx 0.0, max qy 0.0) + min (max qx qy) 0.0 - r)"

definition roundRectMask :: "vec2 \<Rightarrow> vec2 \<Rightarrow> vec2 \<Rightarrow> real \<Rightarrow> real \<Rightarrow> real" where
  "roundRectMask u_resolution p halfSize radius softness =
     (let d = sdRoundRect p halfSize radius;
          aa = 2.0 / min (fst u_resolution) (snd u_resolution);
          m = 1.0 - smoothstep 0.0 (aa + softness) d;
          depth = min (fst halfSize) (snd halfSize) * 0.85;
          taper = 1.0 - smoothstep (- depth) 0.0 d
      in m * taper)"

definition ringMask :: "vec2 \<Rightarrow> vec2 \<Rightarrow> vec2 \<Rightarrow> real \<Rightarrow> real \<Rightarrow> real \<Rightarrow> real" where
  "ringMask u_resolution p center radius halfWidth softness =
     (let d = abs (length2 (fst p - fst center, snd p - snd center) - radius);
          aa = 2.0 / min (fst u_resolution) (snd u_resolution);
          m = 1.0 - smoothstep halfWidth (halfWidth + aa + softness) d;
          taper = 1.0 - smoothstep 0.0 halfWidth d
      in m * taper)"

text \<open>The warped sampling point \<^verbatim>\<open>rp\<close>.\<close>

definition warp :: "vec2 \<Rightarrow> vec2" where
  "warp uv =
     (case uv of (x, y) \<Rightarrow> case normal uv of (nx, ny, nz) \<Rightarrow>
      let z = sphereZ uv;
          rpx = x + nx * (0.065 * (1.0 - z));
          rpy = y + ny * (0.065 * (1.0 - z))
      in (rpx, rpy * 1.03))"

text \<open>The final values of \<^verbatim>\<open>refCore\<close> and \<^verbatim>\<open>refGlow\<close>.\<close>

definition refCoreGlow :: "vec2 \<Rightarrow> vec2 \<Rightarrow> real \<times> real" where
  "refCoreGlow u_resolution uv =
     (case warp uv of (rpx, rpy) \<Rightarrow>
      let rp = (rpx, rpy);
          ring = ringMask u_resolution;
          rect = (\<lambda>c. roundRectMask u_resolution (rpx - fst c, rpy - snd c));
          soft = 0.014;
          topY = smoothstep 0.30 0.48 rpy;
          top = ring rp (0.0, 0.06) 0.66 0.020 (soft * 0.55) * topY
                * (1.0 - smoothstep 0.52 0.76 (abs rpx));
          topInner = ring rp (0.0, 0.08) 0.62 0.012 (soft * 0.45) * topY
                     * (1.0 - smoothstep 0.48 0.72 (abs rpx));
          topHalo = ring rp (0.0, 0.06) 0.66 0.054 (soft * 2.0) * topY
                    * (1.0 - smoothstep 0.40 0.78 (abs rpx));
          refCore1 = 0.0 + (top * 1.10 + topInner * 0.85);
          refGlow1 = 0.0 + topHalo * 0.55;
          sideL = ring rp (0.20, 0.02) 0.48 0.010 (soft * 0.55)
                  * (smoothstep (- 0.02) 0.16 rpy * (1.0 - smoothstep 0.24 0.40 rpy))
                  * (smoothstep (- 0.56) (- 0.38) rpx * (1.0 - smoothstep (- 0.18) (- 0.04) rpx));
          refCore2 = refCore1 + sideL * 0.55;
          refGlow2 = refGlow1 + ring rp (0.20, 0.02) 0.48 0.030 (soft * 1.6) * sideL * 0.30;
          sideR = ring rp (- 0.20, 0.02) 0.48 0.010 (soft * 0.55)
                  * (smoothstep (- 0.02) 0.16 rpy * (1.0 - smoothstep 0.24 0.40 rpy))
                  * (smoothstep 0.04 0.18 rpx * (1.0 - smoothstep 0.38 0.56 rpx));
          refCore3 = refCore2 + sideR * 0.55;
          refGlow3 = refGlow2 + ring rp (- 0.20, 0.02) 0.48 0.030 (soft * 1.6) * sideR * 0.30;
          dTopL = rect (- 0.25, 0.62) (0.115, 0.018) 0.012 (soft * 0.75);
          dTopR = rect (0.25, 0.62) (0.115, 0.018) 0.012 (soft * 0.75);
          dTopC = rect (0.0, 0.53) (0.080, 0.015) 0.011 (soft * 0.75);
          dMidL = rect (- 0.40, 0.22) (0.040, 0.014) 0.010 (soft * 0.8);
          dMidR = rect (0.40, 0.22) (0.040, 0.014) 0.010 (soft * 0.8);
          dLowL = rect (- 0.30, - 0.06) (0.030, 0.012) 0.010 (soft * 0.75);
          dLowR = rect (0.30, - 0.06) (0.030, 0.012) 0.010 (soft * 0.75);
          dBot = rect (0.0, - 0.36) (0.050, 0.016) 0.012 (soft * 0.75);
          refCore4 = refCore3 + (dTopL * 0.88 + dTopR * 0.88 + dTopC * 0.55);
          refCore5 = refCore4 + (dMidL * 0.62 + dMidR * 0.62);
          refCore6 = refCore5 + (dLowL * 0.48 + dLowR * 0.48);
          refCore = refCore6 + dBot * 0.34;
          refGlow4 = refGlow3 + rect (- 0.25, 0.62) (0.140, 0.030) 0.016 (soft * 2.0) * 0.20;
          refGlow5 = refGlow4 + rect (0.25, 0.62) (0.140, 0.030) 0.016 (soft * 2.0) * 0.20;
          refGlow = refGlow5 + rect (0.0, 0.53) (0.110, 0.028) 0.016 (soft * 2.0) * 0.12
      in (refCore, refGlow))"

text \<open>
  The body of \<^verbatim>\<open>if (u_reflections > 0.0) { ... }\<close> in \<^verbatim>\<open>part_000\<close>: an additive
  highlight, then a partial blend towards white.
\<close>

definition reflectSoft :: "vec2 \<Rightarrow> vec2 \<Rightarrow> real \<Rightarrow> vec3 \<Rightarrow> vec3" where
  "reflectSoft u_resolution uv u_reflections color =
     (case refCoreGlow u_resolution uv of (refCore, refGlow) \<Rightarrow>
      let edgeBoost = mix 0.35 1.0 (clamp (fresnel uv * 2.4) 0.0 1.0);
          refMask = clamp refCore 0.0 1.0;
          glowMask = clamp refGlow 0.0 1.0;
          strength = u_reflections * edgeBoost;
          refColor = 1.0;
          add = refColor * (refMask * 0.70 + glowMask * 0.26) * strength;
          color1 = (case color of (r, g, b) \<Rightarrow> (r + add, g + add, b + add))
      in mixWhite color1 ((refMask * 0.12 + glowMask * 0.07) * strength))"

section \<open>The two fragment shaders\<close>

text \<open>
  \<^verbatim>\<open>main\<close> from the mask on: the early return outside the sphere, the shared colour,
  the reflection block when \<^verbatim>\<open>u_reflections > 0.0\<close>, tone mapping, and the mask as
  alpha. \<open>shadeHard\<close> is the shader of \<^verbatim>\<open>src/src/HAL.tsx\<close>, which declares
  \<^verbatim>\<open>u_resolution\<close> and never reads it; \<open>shadeSoft\<close> is the shader of
  \<^verbatim>\<open>src/unnamed/part_000\<close>.
\<close>

definition shadeHard :: "vec2 \<Rightarrow> vec2 \<Rightarrow> Params \<Rightarrow> real \<Rightarrow> real \<Rightarrow> vec3 \<times> real" where
  "shadeHard u_resolution uv u u_time u_reflections =
     (if sphere uv < 0.001 then ((0.0, 0.0, 0.0), 0.0)
      else
        let color = sceneColor uv u u_time;
            color' = (if u_reflections > 0.0 then reflectHard uv u_reflections color else color);
            finalColor = toneMap3 color'
        in (finalColor, sphere uv))"

definition shadeSoft :: "vec2 \<Rightarrow> vec2 \<Rightarrow> Params \<Rightarrow> real \<Rightarrow> real \<Rightarrow> vec3 \<times> real" where
  "shadeSoft u_resolution uv u u_time u_reflections =
     (if sphere uv < 0.001 then ((0.0, 0.0, 0.0), 0.0)
      else
        let color = sceneColor uv u u_time;
            color' = (if u_reflections > 0.0
                      then reflectSoft u_resolution uv u_reflections color else color);
            finalColor = toneMap3 color'
        in (finalColor, sphere uv))"

text \<open>\<^verbatim>\<open>void main()\<close> itself, on the varying \<^verbatim>\<open>v_uv\<close>: \<^verbatim>\<open>gl_FragColor\<close>.\<close>

definition mainHard :: "vec2 \<Rightarrow> vec2 \<Rightarrow> Params \<Rightarrow> real \<Rightarrow> real \<Rightarrow> vec3 \<times> real" where
  "mainHard u_resolution v_uv u u_time u_reflections =
     shadeHard u_resolution (fst v_uv * 2.0 - 1.0, snd v_uv * 2.0 - 1.0) u u_time u_reflections"

definition mainSoft :: "vec2 \<Rightarrow> vec2 \<Rightarrow> Params \<Rightarrow> real \<Rightarrow> real \<Rightarrow> vec3 \<times> real" where
  "mainSoft u_resolution v_uv u u_time u_reflections =
     shadeSoft u_resolution (fst v_uv * 2.0 - 1.0, snd v_uv * 2.0 - 1.0) u u_time u_reflections"

text \<open>
  The \<^verbatim>\<open>reflections\<close> prop, \<^verbatim>\<open>boolean | HALReflectionOptions\<close>, and the uniform value
  \<^verbatim>\<open>render\<close> derives from it.
\<close>

datatype Reflections = RBool bool | RObject "bool option" "real option"

fun reflectionValue :: "Reflections \<Rightarrow> real" where
  "reflectionValue (RBool b) = (if b then 0.6 else 0)"
| "reflectionValue (RObject enabled intensity) =
     (if enabled = Some True then (case intensity of Some v \<Rightarrow> v | None \<Rightarrow> 0.6) else 0)"

text \<open>Channel \<open>i\<close> of a colour: 0 is red, 1 is green, anything else is blue.\<close>

fun chan :: "nat \<Rightarrow> vec3 \<Rightarrow> real" where
  "chan 0 (r, g, b) = r"
| "chan (Suc 0) (r, g, b) = g"
| "chan (Suc (Suc n)) (r, g, b) = b"

section \<open>The specification's vocabulary for hex colours\<close>

text \<open>
  The specification's reading of \<^verbatim>\<open>hexToRgb\<close>, written independently of the
  matcher above: a valid input is six hexadecimal digits (either case) after an optional
  leading \<^verbatim>\<open>#\<close>, and channel \<open>i\<close> is the byte its digits \<open>2i\<close> and \<open>2i+1\<close> denote.
\<close>

definition hexDigits :: "(char \<times> nat) list" where
  "hexDigits = zip ''0123456789abcdefABCDEF'' ([0..<16] @ [10..<16])"

definition isHexDigit :: "char \<Rightarrow> bool" where
  "isHexDigit c = (map_of hexDigits c \<noteq> None)"

definition digitOf :: "char \<Rightarrow> nat" where
  "digitOf c = (case map_of hexDigits c of Some v \<Rightarrow> v | None \<Rightarrow> 0)"

definition stripHash :: "string \<Rightarrow> string" where
  "stripHash s = (case s of c # r \<Rightarrow> if c = CHR ''#'' then r else s | [] \<Rightarrow> s)"

definition isHexColor :: "string \<Rightarrow> bool" where
  "isHexColor s = (length (stripHash s) = 6 \<and> list_all isHexDigit (stripHash s))"

definition byteAt :: "string \<Rightarrow> nat \<Rightarrow> nat" where
  "byteAt s i = 16 * digitOf (stripHash s ! (2 * i)) + digitOf (stripHash s ! (2 * i + 1))"

section \<open>Names for the statements about the shader\<close>

text \<open>
  The alpha channel as a function of the distance from the centre alone: one minus the
  smooth threshold between 0.72 - 0.008 and 0.72, and 0 where the early return fires.
\<close>

definition sphereAlpha :: "real \<Rightarrow> real" where
  "sphereAlpha d = (let s = 1 - smoothstep (0.72 - 0.008) 0.72 d in if s < 0.001 then 0 else s)"


text \<open>A \<^verbatim>\<open>colorScheme\<close> prop with a white highlight on black.\<close>

definition whiteOnBlack :: HALColorScheme where
  "whiteOnBlack = \<lparr>base_opt = Some (0, 0, 0), mid_opt = Some (0, 0, 0), highlight_opt = Some (1, 1, 1)\<rparr>"

text \<open>
  The length of the light vector of the speaking preset at time 0, and of the sum of its
  direction and the view direction.
\<close>

definition Ln :: real where
  "Ln = sqrt (11981 / 10000)"

definition Hn :: real where
  "Hn = sqrt (2 + (17 / 10) / Ln)"

section \<open>Hex colours: the matcher against the specification\<close>

lemma hexDigits_unfold: "hexDigits = [(CHR ''0'',0),(CHR ''1'',1),(CHR ''2'',2),(CHR ''3'',3),(CHR ''4'',4),
  (CHR ''5'',5),(CHR ''6'',6),(CHR ''7'',7),(CHR ''8'',8),(CHR ''9'',9),
  (CHR ''a'',10),(CHR ''b'',11),(CHR ''c'',12),(CHR ''d'',13),(CHR ''e'',14),(CHR ''f'',15),
  (CHR ''A'',10),(CHR ''B'',11),(CHR ''C'',12),(CHR ''D'',13),(CHR ''E'',14),(CHR ''F'',15)]"
  by (simp add: hexDigits_def upt_rec)

lemma code_range_cases:
  "48 \<le> n \<and> n \<le> 57 \<or> 97 \<le> n \<and> n \<le> 102 \<or> 65 \<le> n \<and> n \<le> 70 \<Longrightarrow>
   n \<in> {48,49,50,51,52,53,54,55,56,57,97,98,99,100,101,102,65,66,67,68,69,70::nat}"
  by simp arith

lemma code_has_char:
  "n \<in> {48,49,50,51,52,53,54,55,56,57,97,98,99,100,101,102,65,66,67,68,69,70::nat} \<Longrightarrow>
   \<exists>d \<in> set ''0123456789abcdefABCDEF''. of_char d = n"
  by auto

lemma isHexChar_cases: "isHexChar c \<Longrightarrow> c \<in> set ''0123456789abcdefABCDEF''"
proof -
  assume h: "isHexChar c"
  then have "(of_char c :: nat) \<in> {48,49,50,51,52,53,54,55,56,57,97,98,99,100,101,102,65,66,67,68,69,70::nat}"
    unfolding isHexChar_def Let_def by (rule code_range_cases)
  from code_has_char[OF this] obtain d
    where d: "d \<in> set ''0123456789abcdefABCDEF''" "(of_char d :: nat) = of_char c"
    by blast
  from d(2) have "d = c" by (simp only: of_char_eq_iff)
  with d(1) show ?thesis by simp
qed

lemma isHexChar_eq: "isHexChar c = isHexDigit c"
proof
  assume "isHexChar c"
  from isHexChar_cases[OF this] show "isHexDigit c"
    by (auto simp: isHexDigit_def hexDigits_unfold)
next
  assume "isHexDigit c"
  then have "c \<in> set ''0123456789abcdefABCDEF''"
    by (auto simp: isHexDigit_def hexDigits_unfold split: if_splits)
  then show "isHexChar c"
    by (auto simp: isHexChar_def)
qed

lemma hexDigitValue_eq: "isHexChar c \<Longrightarrow> hexDigitValue c = digitOf c"
  by (drule isHexChar_cases) (auto simp: hexDigitValue_def digitOf_def hexDigits_unfold)

lemma matchGroup_Some:
  "(matchGroup s = Some (g, r)) = (\<exists>a b. s = a # b # r \<and> g = [a, b] \<and> isHexChar a \<and> isHexChar b)"
  by (cases s rule: matchGroup.cases) auto

lemma matchGroups_Some:
  "(matchGroups s = Some (g1, g2, g3)) =
   (\<exists>a b c d e f. s = [a, b, c, d, e, f] \<and> g1 = [a, b] \<and> g2 = [c, d] \<and> g3 = [e, f] \<and>
      isHexChar a \<and> isHexChar b \<and> isHexChar c \<and> isHexChar d \<and> isHexChar e \<and> isHexChar f)"
  by (auto simp: matchGroups_def matchGroup_Some split: option.splits)

lemma matchGroups_hash: "matchGroups (CHR ''#'' # r) = None"
proof (cases "matchGroups (CHR ''#'' # r)")
  case None then show ?thesis .
next
  case (Some gs)
  obtain g1 g2 g3 where "gs = (g1, g2, g3)" by (cases gs) auto
  with Some have "isHexChar CHR ''#''" by (auto simp: matchGroups_Some)
  then show ?thesis by (simp add: isHexChar_def)
qed

lemma execHex_eq: "execHex hex = matchGroups (stripHash hex)"
proof (cases hex)
  case Nil then show ?thesis by (simp add: execHex_def stripHash_def)
next
  case (Cons c rest)
  then show ?thesis
    by (simp add: execHex_def stripHash_def matchGroups_hash split: option.splits)
qed

lemma list6:
  "length s = 6 \<Longrightarrow> s = [s ! 0, s ! 1, s ! 2, s ! 3, s ! 4, s ! 5]"
  by (auto simp: list_eq_iff_nth_eq nth_Cons' less_Suc_eq numeral_eq_Suc)

lemma matchGroups_valid:
  assumes "length s = 6" "list_all isHexChar s"
  shows "matchGroups s = Some ([s ! 0, s ! 1], [s ! 2, s ! 3], [s ! 4, s ! 5])"
proof -
  have "\<forall>i<6. isHexChar (s ! i)" using assms by (simp add: list_all_length)
  then have "isHexChar (s ! 0)" "isHexChar (s ! 1)" "isHexChar (s ! 2)"
    "isHexChar (s ! 3)" "isHexChar (s ! 4)" "isHexChar (s ! 5)" by simp_all
  then show ?thesis
    using list6[OF assms(1)] by (subst matchGroups_Some) blast
qed

lemma matchGroups_invalid:
  assumes "\<not> (length s = 6 \<and> list_all isHexChar s)"
  shows "matchGroups s = None"
proof (cases "matchGroups s")
  case None then show ?thesis .
next
  case (Some gs)
  obtain g1 g2 g3 where "gs = (g1, g2, g3)" by (cases gs) auto
  with Some have "length s = 6 \<and> list_all isHexChar s" by (auto simp: matchGroups_Some)
  with assms show ?thesis by simp
qed

lemma parseInt16_pair: "parseInt16 [a, b] = 16 * hexDigitValue a + hexDigitValue b"
  by (simp add: parseInt16_def)

text \<open>
  C8. \<^verbatim>\<open>hexToRgb\<close> returns the fallback (0.15, 0.35, 0.75) on every input that is not
  six hex digits with an optional leading \<^verbatim>\<open>#\<close> (so on \<^verbatim>\<open>notacolor\<close> and
  \<^verbatim>\<open>#fff\<close>), and on every valid input it returns each channel as the parsed byte
  divided by 255; \<^verbatim>\<open>#2563eb\<close> gives (37/255, 99/255, 235/255), which is
  (0.145, 0.388, 0.922) to three decimals.
\<close>

theorem hexToRgb_spec:
  "hexToRgb s =
     (if isHexColor s
      then (real (byteAt s 0) / 255, real (byteAt s 1) / 255, real (byteAt s 2) / 255)
      else (0.15, 0.35, 0.75))
   \<and> hexToRgb ''#2563eb'' = (37 / 255, 99 / 255, 235 / 255)
   \<and> (case hexToRgb ''#2563eb'' of (r, g, b) \<Rightarrow>
        abs (r - 0.145) < 0.0005 \<and> abs (g - 0.388) < 0.0005 \<and> abs (b - 0.922) < 0.0005)
   \<and> hexToRgb ''notacolor'' = (0.15, 0.35, 0.75)
   \<and> hexToRgb ''#fff'' = (0.15, 0.35, 0.75)"
proof -
  have list_all_eq: "list_all isHexDigit = list_all isHexChar"
    by (rule ext) (simp add: isHexChar_eq list_all_iff)
  have gen: "hexToRgb s =
     (if isHexColor s
      then (real (byteAt s 0) / 255, real (byteAt s 1) / 255, real (byteAt s 2) / 255)
      else (0.15, 0.35, 0.75))"
  proof (cases "isHexColor s")
    case True
    let ?h = "stripHash s"
    from True have len: "length ?h = 6" and hx: "list_all isHexChar ?h"
      by (simp_all add: isHexColor_def list_all_eq)
    have "\<forall>i<6. isHexChar (?h ! i)" using len hx by (simp add: list_all_length)
    then have d: "hexDigitValue (?h ! 0) = digitOf (?h ! 0)" "hexDigitValue (?h ! 1) = digitOf (?h ! 1)"
      "hexDigitValue (?h ! 2) = digitOf (?h ! 2)" "hexDigitValue (?h ! 3) = digitOf (?h ! 3)"
      "hexDigitValue (?h ! 4) = digitOf (?h ! 4)" "hexDigitValue (?h ! 5) = digitOf (?h ! 5)"
      by (simp_all add: hexDigitValue_eq)
    show ?thesis
      using True d
      by (simp add: hexToRgb_def execHex_eq matchGroups_valid[OF len hx] parseInt16_pair byteAt_def)
  next
    case False
    then have "\<not> (length (stripHash s) = 6 \<and> list_all isHexChar (stripHash s))"
      by (simp add: isHexColor_def list_all_eq)
    from matchGroups_invalid[OF this] False show ?thesis
      by (simp add: hexToRgb_def execHex_eq)
  qed
  have e1: "hexToRgb ''#2563eb'' = (37 / 255, 99 / 255, 235 / 255)"
    by (simp add: hexToRgb_def execHex_def matchGroups_def isHexChar_def parseInt16_def hexDigitValue_def)
  have e2: "hexToRgb ''notacolor'' = (0.15, 0.35, 0.75)"
    by (simp add: hexToRgb_def execHex_def matchGroups_def isHexChar_def)
  have e3: "hexToRgb ''#fff'' = (0.15, 0.35, 0.75)"
    by (simp add: hexToRgb_def execHex_def matchGroups_def isHexChar_def)
  have e1': "case hexToRgb ''#2563eb'' of (r, g, b) \<Rightarrow>
        abs (r - 0.145) < 0.0005 \<and> abs (g - 0.388) < 0.0005 \<and> abs (b - 0.922) < 0.0005"
    unfolding e1 by simp
  from gen e1 e1' e2 e3 show ?thesis by blast
qed

section \<open>The preset table\<close>

text \<open>
  C3, as the table has it. The \<^verbatim>\<open>pulseSpeed\<close> column is ordered
  asleep < idle < listening = thinking < speaking. The \<^verbatim>\<open>highlightDrift\<close> column is
  ordered listening < asleep < idle < thinking < speaking, with listening at 0 and no other
  preset at 0: listening is the smallest entry of that column, not the middle one.
\<close>

theorem preset_ordering:
  "pulseSpeed (PRESET_ANIMATIONS Asleep) < pulseSpeed (PRESET_ANIMATIONS Idle)
   \<and> pulseSpeed (PRESET_ANIMATIONS Idle) < pulseSpeed (PRESET_ANIMATIONS Listening)
   \<and> pulseSpeed (PRESET_ANIMATIONS Listening) = pulseSpeed (PRESET_ANIMATIONS Thinking)
   \<and> pulseSpeed (PRESET_ANIMATIONS Thinking) < pulseSpeed (PRESET_ANIMATIONS Speaking)
   \<and> highlightDrift (PRESET_ANIMATIONS Listening) = 0
   \<and> highlightDrift (PRESET_ANIMATIONS Listening) < highlightDrift (PRESET_ANIMATIONS Asleep)
   \<and> highlightDrift (PRESET_ANIMATIONS Asleep) < highlightDrift (PRESET_ANIMATIONS Idle)
   \<and> highlightDrift (PRESET_ANIMATIONS Idle) < highlightDrift (PRESET_ANIMATIONS Thinking)
   \<and> highlightDrift (PRESET_ANIMATIONS Thinking) < highlightDrift (PRESET_ANIMATIONS Speaking)
   \<and> (highlightDrift (PRESET_ANIMATIONS p) = 0) = (p = Listening)"
  by (cases p) simp_all

text \<open>
  The ordering the claim states for \<^verbatim>\<open>highlightDrift\<close> puts idle below listening;
  in the table idle is 0.25 and listening is 0.
\<close>

theorem preset_drift_counterexample:
  "highlightDrift (PRESET_ANIMATIONS Idle) = 0.25
   \<and> highlightDrift (PRESET_ANIMATIONS Listening) = 0
   \<and> \<not> (highlightDrift (PRESET_ANIMATIONS Idle) < highlightDrift (PRESET_ANIMATIONS Listening))"
  by simp

section \<open>The interpolation step and one tick\<close>

text \<open>
  C2, as the code has it. The step of one tick is the product 0.015 * m itself, for every
  multiplier m: nothing clamps it. It coincides with clamp(0.015 * m, 0, 1) exactly for
  m between 0 and 200/3.
\<close>

theorem tickStep_unclamped:
  "tickStep m = 0.015 * m
   \<and> (tickStep m = clamp (0.015 * m) 0 1) = (0 \<le> m \<and> m \<le> 200 / 3)"
  by (auto simp: tickStep_def clamp_def min_def max_def)

text \<open>
  At m = 100 the step is 1.5, where the clamp would give 1; a tick then overshoots the
  target: from \<^verbatim>\<open>highlightSize\<close> 0 towards 1 it lands on 1.5.
\<close>

theorem tickStep_counterexample:
  "tickStep 100 = 1.5
   \<and> clamp (0.015 * 100) 0 1 = 1
   \<and> tickStep 100 \<noteq> clamp (0.015 * 100) 0 1
   \<and> \<not> tickStep 100 \<le> 1
   \<and> highlightSize (anim (advance
         \<lparr>baseColor = (0, 0, 0), midColor = (0, 0, 0), highlight' = (0, 0, 0),
          anim = \<lparr>pulseSpeed = 0, pulseAmount = 0, cloudSpeed = 0, cloudIntensity = 0,
                  highlightDrift = 0, highlightSize = 0, highlightPulse = 0\<rparr>\<rparr>
         \<lparr>baseColor = (0, 0, 0), midColor = (0, 0, 0), highlight' = (0, 0, 0),
          anim = \<lparr>pulseSpeed = 0, pulseAmount = 0, cloudSpeed = 0, cloudIntensity = 0,
                  highlightDrift = 0, highlightSize = 1, highlightPulse = 0\<rparr>\<rparr>
         100)) = 1.5"
  by (simp add: tickStep_def clamp_def advance_def lerp_def Let_def)

text \<open>
  C4. One tick replaces every colour channel and \<^verbatim>\<open>highlightSize\<close>,
  \<^verbatim>\<open>highlightPulse\<close>, \<^verbatim>\<open>cloudIntensity\<close>, \<^verbatim>\<open>pulseAmount\<close> by
  current + (target - current) * t, where t is the step of the tick, and sets
  \<^verbatim>\<open>pulseSpeed\<close>, \<^verbatim>\<open>cloudSpeed\<close> and \<^verbatim>\<open>highlightDrift\<close> to the target's values.
  The ten fields are the whole state.
\<close>

theorem advance_fields:
  "advance
     \<lparr>baseColor = (c_br, c_bg, c_bb), midColor = (c_mr, c_mg, c_mb), highlight' = (c_hr, c_hg, c_hb),
      anim = \<lparr>pulseSpeed = c_ps, pulseAmount = c_pa, cloudSpeed = c_cs, cloudIntensity = c_ci,
              highlightDrift = c_hd, highlightSize = c_hs, highlightPulse = c_hp\<rparr>\<rparr>
     \<lparr>baseColor = (t_br, t_bg, t_bb), midColor = (t_mr, t_mg, t_mb), highlight' = (t_hr, t_hg, t_hb),
      anim = \<lparr>pulseSpeed = t_ps, pulseAmount = t_pa, cloudSpeed = t_cs, cloudIntensity = t_ci,
              highlightDrift = t_hd, highlightSize = t_hs, highlightPulse = t_hp\<rparr>\<rparr>
     m =
   \<lparr>baseColor = (c_br + (t_br - c_br) * tickStep m, c_bg + (t_bg - c_bg) * tickStep m,
                 c_bb + (t_bb - c_bb) * tickStep m),
    midColor = (c_mr + (t_mr - c_mr) * tickStep m, c_mg + (t_mg - c_mg) * tickStep m,
                c_mb + (t_mb - c_mb) * tickStep m),
    highlight' = (c_hr + (t_hr - c_hr) * tickStep m, c_hg + (t_hg - c_hg) * tickStep m,
                      c_hb + (t_hb - c_hb) * tickStep m),
    anim = \<lparr>pulseSpeed = t_ps,
            pulseAmount = c_pa + (t_pa - c_pa) * tickStep m,
            cloudSpeed = t_cs,
            cloudIntensity = c_ci + (t_ci - c_ci) * tickStep m,
            highlightDrift = t_hd,
            highlightSize = c_hs + (t_hs - c_hs) * tickStep m,
            highlightPulse = c_hp + (t_hp - c_hp) * tickStep m\<rparr>\<rparr>"
  by (simp add: advance_def lerpColor_def lerp_def Let_def)

section \<open>Resolving the target state\<close>

text \<open>
  C5. Preset listening with no \<^verbatim>\<open>color\<close>, \<^verbatim>\<open>presetColors\<close>, \<^verbatim>\<open>colorScheme\<close> or
  \<^verbatim>\<open>animation\<close> override resolves to the built-in red scheme, base (0.6, 0.08, 0.15),
  mid (0.85, 0.15, 0.25), highlight (1.0, 0.5, 0.6), and to \<^verbatim>\<open>highlightDrift\<close> 0.
\<close>

theorem listening_default:
  "baseColor (targetState Listening None Map.empty None noAnimation) = (0.6, 0.08, 0.15)
   \<and> midColor (targetState Listening None Map.empty None noAnimation) = (0.85, 0.15, 0.25)
   \<and> highlight' (targetState Listening None Map.empty None noAnimation) = (1.0, 0.5, 0.6)
   \<and> highlightDrift (anim (targetState Listening None Map.empty None noAnimation)) = 0.0"
  by (simp add: targetState_def resolveColors_def LISTENING_COLOR_def PRESET_COLORS_red_def
      mergeAnim_def noAnimation_def)

text \<open>
  C6. With preset asleep and no \<^verbatim>\<open>colorScheme\<close> override, whatever \<^verbatim>\<open>color\<close>,
  \<^verbatim>\<open>presetColors\<close> and \<^verbatim>\<open>animation\<close> are, each of the three colours of the target
  state is, channel by channel, 0.5 times the colour the colour chain resolves for the same
  configuration (the preset's own \<^verbatim>\<open>presetColors\<close> entry, else \<^verbatim>\<open>color\<close>, else
  blue). With a \<^verbatim>\<open>colorScheme\<close> override the colours are the chain's own, undimmed:
  the override's colours, blue where one is absent.
\<close>

theorem asleep_dimming:
  "baseColor (targetState Asleep color presetColors None animation) =
     (case base (resolveColors Asleep color presetColors None) of
        (r, g, b) \<Rightarrow> (0.5 * r, 0.5 * g, 0.5 * b))
   \<and> midColor (targetState Asleep color presetColors None animation) =
     (case mid (resolveColors Asleep color presetColors None) of
        (r, g, b) \<Rightarrow> (0.5 * r, 0.5 * g, 0.5 * b))
   \<and> highlight' (targetState Asleep color presetColors None animation) =
     (case highlight (resolveColors Asleep color presetColors None) of
        (r, g, b) \<Rightarrow> (0.5 * r, 0.5 * g, 0.5 * b))
   \<and> resolveColors Asleep color presetColors None =
     (if truthy (presetColors Asleep)
      then generateColorScheme (hexToRgb (the (presetColors Asleep)))
      else if truthy color then generateColorScheme (hexToRgb (the color))
      else PRESET_COLORS_blue)
   \<and> baseColor (targetState Asleep color presetColors (Some cs) animation) =
     base (resolveColors Asleep color presetColors (Some cs))
   \<and> midColor (targetState Asleep color presetColors (Some cs) animation) =
     mid (resolveColors Asleep color presetColors (Some cs))
   \<and> highlight' (targetState Asleep color presetColors (Some cs) animation) =
     highlight (resolveColors Asleep color presetColors (Some cs))
   \<and> resolveColors Asleep color presetColors (Some cs) =
     \<lparr>base = (case base_opt cs of Some c \<Rightarrow> c | None \<Rightarrow> (0.08, 0.18, 0.55)),
      mid = (case mid_opt cs of Some c \<Rightarrow> c | None \<Rightarrow> (0.15, 0.35, 0.75)),
      highlight = (case highlight_opt cs of Some c \<Rightarrow> c | None \<Rightarrow> (0.5, 0.75, 1.0))\<rparr>"
  by (simp add: targetState_def resolveColors_def dim_def PRESET_COLORS_blue_def Let_def
      split: prod.splits option.splits)

text \<open>
  The same dimming against a preset that is not dimmed: a preset other than asleep and
  listening, given the hex colour that asleep is given, resolves to colours of which the
  asleep colours are the halves.
\<close>

lemma asleep_half_of_other:
  assumes "p \<noteq> Asleep" "p \<noteq> Listening" "presetColors p = presetColors Asleep"
  shows "baseColor (targetState Asleep color presetColors None animation) =
           dim (baseColor (targetState p color presetColors None animation'))
       \<and> midColor (targetState Asleep color presetColors None animation) =
           dim (midColor (targetState p color presetColors None animation'))
       \<and> highlight' (targetState Asleep color presetColors None animation) =
           dim (highlight' (targetState p color presetColors None animation'))"
  using assms by (simp add: targetState_def resolveColors_def Let_def)

section \<open>Deriving a scheme from one colour\<close>

text \<open>
  C7. With luminance 0.299 r + 0.587 g + 0.114 b and saturation (max - min) / max (0 when
  max is 0): below saturation 0.1 \<^verbatim>\<open>generateColorScheme\<close> returns base 0.4 * luminance
  and mid 0.8 * luminance on every channel and highlight (0.95, 0.95, 0.95); otherwise
  base 0.5 * input, mid min(1, 1.2 * input) and highlight min(1, 0.5 * input + 0.5),
  channel by channel.
\<close>

theorem generateColorScheme_spec:
  "generateColorScheme (r, g, b) =
     (if (if max (max r g) b = 0 then 0
          else (max (max r g) b - min (min r g) b) / max (max r g) b) < 0.1
      then \<lparr>base = (0.4 * (0.299 * r + 0.587 * g + 0.114 * b),
                    0.4 * (0.299 * r + 0.587 * g + 0.114 * b),
                    0.4 * (0.299 * r + 0.587 * g + 0.114 * b)),
            mid = (0.8 * (0.299 * r + 0.587 * g + 0.114 * b),
                   0.8 * (0.299 * r + 0.587 * g + 0.114 * b),
                   0.8 * (0.299 * r + 0.587 * g + 0.114 * b)),
            highlight = (0.95, 0.95, 0.95)\<rparr>
      else \<lparr>base = (0.5 * r, 0.5 * g, 0.5 * b),
            mid = (min 1 (1.2 * r), min 1 (1.2 * g), min 1 (1.2 * b)),
            highlight = (min 1 (0.5 * r + 0.5), min 1 (0.5 * g + 0.5), min 1 (0.5 * b + 0.5))\<rparr>)"
  by (simp add: generateColorScheme_def Let_def mult.commute)

text \<open>
  The two branches at the inputs the specification names: a gray and a saturated red.
\<close>

lemma generateColorScheme_examples:
  "highlight (generateColorScheme (0.5, 0.5, 0.5)) = (0.95, 0.95, 0.95)
   \<and> base (generateColorScheme (0.8, 0.1, 0.1)) = (0.4, 0.05, 0.05)"
  by (simp add: generateColorScheme_def Let_def)

section \<open>Ranges of the shader's building blocks\<close>





lemma toneMap_strict: "0 \<le> a \<Longrightarrow> a < b \<Longrightarrow> toneMap a < toneMap b"
  by (simp add: toneMap_def divide_simps algebra_simps)


lemma chan_toneMap3: "chan i (toneMap3 c) = toneMap (chan i c)"
  by (cases "(i, c)" rule: chan.cases) (simp_all add: toneMap3_def)

lemma chan_mixWhite: "chan i (mixWhite c a) = mix (chan i c) 1 a"
  by (cases "(i, c)" rule: chan.cases) (simp_all add: mixWhite_def)







lemma pow_nonneg: "0 \<le> pow x y"
  by (simp add: pow_def)













section \<open>The alpha mask\<close>

lemma smoothstep_ge: "edge0 < edge1 \<Longrightarrow> edge1 \<le> x \<Longrightarrow> smoothstep edge0 edge1 x = 1"
  by (simp add: smoothstep_def clamp_def Let_def min_def max_def divide_simps)

lemma smoothstep_le: "edge0 < edge1 \<Longrightarrow> x \<le> edge0 \<Longrightarrow> smoothstep edge0 edge1 x = 0"
  by (simp add: smoothstep_def clamp_def Let_def min_def max_def divide_simps)

lemma sphereAlpha_outside: "72 / 100 \<le> d \<Longrightarrow> sphereAlpha d = 0"
  by (simp add: sphereAlpha_def smoothstep_ge)

lemma sphereAlpha_inside: "d \<le> 712 / 1000 \<Longrightarrow> sphereAlpha d = 1"
  by (simp add: sphereAlpha_def smoothstep_le)

text \<open>
  C9. For every state, time, resolution and reflection value, in both copies of the
  shader, the alpha of a pixel is a function of its distance from the centre alone
  (built from the radius 0.72 and the band 0.008); it is 0 at every pixel at distance
  0.73 or more and 1 at every pixel at distance 0.71 or less. (Over the reals the two
  values are exact: the band lies between 0.712 and 0.72.)
\<close>

theorem alpha_mask:
  "snd (shadeHard res uv u t r) = sphereAlpha (length2 uv)
   \<and> snd (shadeSoft res uv u t r) = sphereAlpha (length2 uv)
   \<and> (73 / 100 \<le> length2 uv \<longrightarrow>
        snd (shadeHard res uv u t r) = 0 \<and> snd (shadeSoft res uv u t r) = 0)
   \<and> (length2 uv \<le> 71 / 100 \<longrightarrow>
        snd (shadeHard res uv u t r) = 1 \<and> snd (shadeSoft res uv u t r) = 1)"
proof -
  have h: "snd (shadeHard res uv u t r) = sphereAlpha (length2 uv)"
    by (simp add: shadeHard_def sphereAlpha_def sphere_def sphereRadius_def edgeSoftness_def Let_def)
  have s: "snd (shadeSoft res uv u t r) = sphereAlpha (length2 uv)"
    by (simp add: shadeSoft_def sphereAlpha_def sphere_def sphereRadius_def edgeSoftness_def Let_def)
  have "73 / 100 \<le> length2 uv \<longrightarrow> sphereAlpha (length2 uv) = 0"
    by (simp add: sphereAlpha_outside)
  moreover have "length2 uv \<le> 71 / 100 \<longrightarrow> sphereAlpha (length2 uv) = 1"
    by (simp add: sphereAlpha_inside)
  ultimately show ?thesis unfolding h s by blast
qed

text \<open>
  The mask at two pixels of the default idle orb with reflections on: the corner (1, 1)
  of the canvas is transparent, the centre is opaque.
\<close>

theorem alpha_mask_witness:
  "snd (shadeHard (600, 600) (1, 1) (targetState Idle None Map.empty None noAnimation) 0 (6 / 10)) = 0
   \<and> snd (shadeSoft (600, 600) (1, 1) (targetState Idle None Map.empty None noAnimation) 0 (6 / 10)) = 0
   \<and> snd (shadeHard (600, 600) (0, 0) (targetState Idle None Map.empty None noAnimation) 0 (6 / 10)) = 1
   \<and> snd (shadeSoft (600, 600) (0, 0) (targetState Idle None Map.empty None noAnimation) 0 (6 / 10)) = 1"
proof -
  have "73 / 100 \<le> sqrt 2"
    by (rule real_le_rsqrt) (simp add: power2_eq_square)
  then have far: "73 / 100 \<le> length2 (1, 1)"
    by (simp add: length2_def dot2_def)
  have near: "length2 (0, 0) \<le> 71 / 100"
    by (simp add: length2_def dot2_def)
  show ?thesis
    using alpha_mask[of "(600, 600)" "(1, 1)" "targetState Idle None Map.empty None noAnimation" 0 "6 / 10"]
      alpha_mask[of "(600, 600)" "(0, 0)" "targetState Idle None Map.empty None noAnimation" 0 "6 / 10"]
      far near
    by blast
qed

section \<open>The two copies of the shader with reflections off\<close>

text \<open>
  C10. With \<^verbatim>\<open>u_reflections\<close> at 0 (or any value that is not positive) the fragment
  shader of \<^verbatim>\<open>src/src/HAL.tsx\<close> and the one of \<^verbatim>\<open>src/unnamed/part_000\<close> give the
  same RGBA for every pixel, state and time, whatever \<^verbatim>\<open>u_resolution\<close> each is
  given: they differ only inside the branch \<^verbatim>\<open>if (u_reflections > 0.0)\<close>.
\<close>

theorem shaders_agree_without_reflections:
  assumes "u_reflections \<le> 0"
  shows "mainHard res v_uv u t u_reflections = mainSoft res' v_uv u t u_reflections"
  using assms by (simp add: mainHard_def mainSoft_def shadeHard_def shadeSoft_def)

theorem shaders_agree_witness:
  "mainHard (600, 600) (1 / 2, 1 / 2) (targetState Idle None Map.empty None noAnimation) 0
     (reflectionValue (RBool False))
   = mainSoft (600, 600) (1 / 2, 1 / 2) (targetState Idle None Map.empty None noAnimation) 0
     (reflectionValue (RBool False))"
  by (rule shaders_agree_without_reflections) simp

section \<open>The reflection overlay\<close>



subsection \<open>Pixels the overlay darkens\<close>

text \<open>Inside the silhouette the normal is already a unit vector.\<close>

lemma normal_inside:
  assumes "x * x + y * y \<le> sphereRadius * sphereRadius"
  shows "normal (x, y) = (x / sphereRadius, y / sphereRadius, sphereZ (x, y))"
proof -
  define q where "q = (x * x + y * y) / (sphereRadius * sphereRadius)"
  define z where "z = sphereZ (x, y)"
  have r: "0 < sphereRadius * sphereRadius" by (simp add: sphereRadius_def)
  have q: "q \<le> 1"
    unfolding q_def using assms r by (simp add: pos_divide_le_eq)
  have "z = sqrt (1 - q)" using q by (simp add: z_def sphereZ_def q_def max_def)
  then have zz: "z * z = 1 - q" using q by simp
  have "dot3 (x / sphereRadius, y / sphereRadius, z) (x / sphereRadius, y / sphereRadius, z)
        = q + z * z"
    by (simp add: dot3_def q_def add_divide_distrib)
  then have "length3 (x / sphereRadius, y / sphereRadius, z) = 1"
    by (simp add: length3_def zz)
  then show ?thesis by (simp add: normal_def normalize3_def z_def)
qed

text \<open>The light of the speaking preset at time 0.\<close>

lemma Ln_sq:
  "Ln * Ln = 11981 / 10000"
  by (simp add: Ln_def)

lemma Ln_lo:
  "1094 / 1000 \<le> Ln"
  unfolding Ln_def by (rule real_le_rsqrt) (simp add: power2_eq_square)

lemma Ln_hi:
  "Ln \<le> 1095 / 1000"
  unfolding Ln_def by (rule real_le_lsqrt) (simp_all add: power2_eq_square)

lemma Ln_pos:
  "0 < Ln"
  using Ln_lo by linarith

lemma Hn_pos:
  "0 < Hn"
  unfolding Hn_def using Ln_pos by (simp add: add_pos_nonneg)

lemma Hn_hi:
  "Hn \<le> 18852 / 10000"
proof -
  have "(17 / 10) / Ln \<le> (17 / 10) / (1094 / 1000)"
    using Ln_lo by (intro divide_left_mono) simp_all
  then have "2 + (17 / 10) / Ln \<le> (18852 / 10000)\<^sup>2"
    by (simp add: power2_eq_square)
  then show ?thesis
    unfolding Hn_def by (intro real_le_lsqrt) simp_all
qed

lemma Hn_lo:
  "18848 / 10000 \<le> Hn"
proof -
  have "(17 / 10) / (1095 / 1000) \<le> (17 / 10) / Ln"
    using Ln_hi Ln_pos by (intro divide_left_mono) simp_all
  then have "(18848 / 10000)\<^sup>2 \<le> 2 + (17 / 10) / Ln"
    by (simp add: power2_eq_square)
  then show ?thesis
    unfolding Hn_def by (rule real_le_rsqrt)
qed

lemma speaking_center:
  assumes "anim u = PRESET_ANIMATIONS Speaking"
  shows "highlightCenter u 0 = (- (1 / 5), 33 / 50)"
  by (simp add: assms highlightCenter_def Let_def mix_def)

lemma speaking_size:
  assumes "anim u = PRESET_ANIMATIONS Speaking"
  shows "currentHighlightSize u 0 = 6 / 5"
  by (simp add: assms currentHighlightSize_def Let_def)

lemma speaking_pulse:
  assumes "anim u = PRESET_ANIMATIONS Speaking"
  shows "pulse u 0 = 1"
  by (simp add: assms pulse_def)

lemma speaking_lightDir:
  assumes "anim u = PRESET_ANIMATIONS Speaking"
  shows "lightDir u 0 = (- (1 / 5) / Ln, (33 / 50) / Ln, (17 / 20) / Ln)"
proof -
  have "length3 (- (1 / 5), 33 / 50, 17 / 20) = Ln"
    by (simp add: length3_def dot3_def Ln_def)
  then show ?thesis
    by (simp add: lightDir_def speaking_center[OF assms] normalize3_def)
qed

lemma speaking_halfDir:
  assumes "anim u = PRESET_ANIMATIONS Speaking"
  shows "halfDir u 0 = ((- (1 / 5) / Ln) / Hn, ((33 / 50) / Ln) / Hn, ((17 / 20) / Ln + 1) / Hn)"
proof -
  have "dot3 (- (1 / 5) / Ln, (33 / 50) / Ln, (17 / 20) / Ln + 1)
             (- (1 / 5) / Ln, (33 / 50) / Ln, (17 / 20) / Ln + 1)
      = (11981 / 10000) / (Ln * Ln) + (17 / 10) / Ln + 1"
    using Ln_pos by (simp add: dot3_def field_simps)
  also have "\<dots> = 2 + (17 / 10) / Ln"
    by (simp add: Ln_sq)
  finally have "length3 (- (1 / 5) / Ln, (33 / 50) / Ln, (17 / 20) / Ln + 1) = Hn"
    by (simp add: length3_def Hn_def)
  then show ?thesis
    by (simp add: halfDir_def speaking_lightDir[OF assms] viewDir_def normalize3_def)
qed

text \<open>The cosine between a normal and the half vector of that light.\<close>

lemma speaking_cosine:
  assumes "anim u = PRESET_ANIMATIONS Speaking"
  shows "dot3 (nx, ny, nz) (halfDir u 0)
         = ((- (1 / 5) * nx + (33 / 50) * ny + (17 / 20) * nz) / Ln + nz) / Hn"
  using Ln_pos Hn_pos by (simp add: speaking_halfDir[OF assms] dot3_def field_simps)














text \<open>
  Pixel B = (-0.28, -0.05), the centre of the lower left dash.
\<close>

lemma lengthB:
  "length2 (- (7 / 25), - (1 / 20)) \<le> 288 / 1000"
proof -
  have "length2 (- (7 / 25), - (1 / 20)) = sqrt (809 / 10000)"
    by (simp add: length2_def dot2_def)
  moreover have "sqrt (809 / 10000) \<le> 288 / 1000"
    by (rule real_le_lsqrt) (simp_all add: power2_eq_square)
  ultimately show ?thesis
    by simp
qed

lemma sphereB:
  "sphere (- (7 / 25), - (1 / 20)) = 1"
  using lengthB
  by (simp add: sphere_def sphereRadius_def edgeSoftness_def smoothstep_def clamp_def Let_def)

lemma zB:
  "918 / 1000 \<le> sphereZ (- (7 / 25), - (1 / 20)) \<and> sphereZ (- (7 / 25), - (1 / 20)) \<le> 919 / 1000"
proof -
  have "sphereZ (- (7 / 25), - (1 / 20)) = sqrt (4375 / 5184)"
    by (simp add: sphereZ_def sphereRadius_def)
  moreover have "918 / 1000 \<le> sqrt (4375 / 5184)"
    by (rule real_le_rsqrt) (simp add: power2_eq_square)
  moreover have "sqrt (4375 / 5184) \<le> 919 / 1000"
    by (rule real_le_lsqrt) (simp_all add: power2_eq_square)
  ultimately show ?thesis
    by simp
qed

lemma normalB:
  "normal (- (7 / 25), - (1 / 20)) = (- (7 / 18), - (5 / 72), sphereZ (- (7 / 25), - (1 / 20)))"
proof -
  have "normal (- (7 / 25), - (1 / 20))
        = (- (7 / 25) / sphereRadius, - (1 / 20) / sphereRadius, sphereZ (- (7 / 25), - (1 / 20)))"
    by (rule normal_inside) (simp add: sphereRadius_def)
  then show ?thesis
    by (simp add: sphereRadius_def)
qed

lemma cosineB:
  assumes "anim u = PRESET_ANIMATIONS Speaking"
  shows "7 / 8 \<le> dot3 (normal (- (7 / 25), - (1 / 20))) (halfDir u 0)
       \<and> dot3 (normal (- (7 / 25), - (1 / 20))) (halfDir u 0) \<le> 89 / 100"
proof -
  define z where "z = sphereZ (- (7 / 25), - (1 / 20))"
  define A where "A = (- (1 / 5) * - (7 / 18) + (33 / 50) * - (5 / 72) + (17 / 20) * z) / Ln"
  have z: "918 / 1000 \<le> z" "z \<le> 919 / 1000"
    using zB by (simp_all add: z_def)
  have d: "dot3 (normal (- (7 / 25), - (1 / 20))) (halfDir u 0) = (A + z) / Hn"
    unfolding normalB speaking_cosine[OF assms] A_def z_def ..
  have "74 / 100 * Ln \<le> - (1 / 5) * - (7 / 18) + (33 / 50) * - (5 / 72) + (17 / 20) * z"
    using Ln_hi z by linarith
  then have A1: "74 / 100 \<le> A"
    unfolding A_def using Ln_pos by (simp only: pos_le_divide_eq)
  have "- (1 / 5) * - (7 / 18) + (33 / 50) * - (5 / 72) + (17 / 20) * z \<le> 745 / 1000 * Ln"
    using Ln_lo z by linarith
  then have A2: "A \<le> 745 / 1000"
    unfolding A_def using Ln_pos by (simp only: pos_divide_le_eq)
  have "7 / 8 * Hn \<le> A + z"
    using Hn_hi A1 z by linarith
  then have lo: "7 / 8 \<le> (A + z) / Hn"
    using Hn_pos by (simp only: pos_le_divide_eq)
  have "A + z \<le> 89 / 100 * Hn"
    using Hn_lo A2 z by linarith
  then have hi: "(A + z) / Hn \<le> 89 / 100"
    using Hn_pos by (simp only: pos_divide_le_eq)
  show ?thesis
    unfolding d using lo hi by simp
qed

lemma specB:
  assumes "anim u = PRESET_ANIMATIONS Speaking"
  shows "58 / 100 \<le> specVSoft (- (7 / 25), - (1 / 20)) u 0
       \<and> specVSoft (- (7 / 25), - (1 / 20)) u 0 \<le> 63 / 100
       \<and> 20 / 100 \<le> specSoft (- (7 / 25), - (1 / 20)) u 0
       \<and> specSoft (- (7 / 25), - (1 / 20)) u 0 \<le> 25 / 100
       \<and> specMed (- (7 / 25), - (1 / 20)) u 0 \<le> 1 / 100
       \<and> specSharp (- (7 / 25), - (1 / 20)) u 0 \<le> 1 / 100"
proof -
  define d where "d = dot3 (normal (- (7 / 25), - (1 / 20))) (halfDir u 0)"
  have d: "7 / 8 \<le> d" "d \<le> 89 / 100"
    using cosineB[OF assms] by (simp_all add: d_def)
  then have d0: "0 \<le> d" "max 0 d = d" "d \<le> 1"
    by simp_all
  have e: "specVSoft (- (7 / 25), - (1 / 20)) u 0 = d ^ 4"
    "specSoft (- (7 / 25), - (1 / 20)) u 0 = d ^ 12"
    "specMed (- (7 / 25), - (1 / 20)) u 0 = d ^ 40"
    "specSharp (- (7 / 25), - (1 / 20)) u 0 = d ^ 150"
    unfolding specVSoft_def specSoft_def specMed_def specSharp_def pow_def d_def[symmetric] d0
    using d0 by simp_all
  have "(7 / 8) ^ 4 \<le> d ^ 4" "(7 / 8) ^ 12 \<le> d ^ 12"
    using d by (intro power_mono; simp)+
  moreover have "58 / 100 \<le> (7 / 8 :: real) ^ 4" "20 / 100 \<le> (7 / 8 :: real) ^ 12"
    by (simp_all add: power_divide)
  ultimately have lo: "58 / 100 \<le> d ^ 4" "20 / 100 \<le> d ^ 12"
    by linarith+
  have "d ^ 4 \<le> (89 / 100) ^ 4" "d ^ 12 \<le> (89 / 100) ^ 12" "d ^ 40 \<le> (89 / 100) ^ 40"
    using d d0 by (intro power_mono; simp)+
  moreover have "(89 / 100 :: real) ^ 4 \<le> 63 / 100" "(89 / 100 :: real) ^ 12 \<le> 25 / 100"
    "(89 / 100 :: real) ^ 40 \<le> 1 / 100"
    by (simp_all add: power_divide)
  ultimately have hi: "d ^ 4 \<le> 63 / 100" "d ^ 12 \<le> 25 / 100" "d ^ 40 \<le> 1 / 100"
    by linarith+
  have "d ^ 150 \<le> d ^ 40"
    using d0 by (intro power_decreasing) simp_all
  then have "d ^ 150 \<le> 1 / 100"
    using hi by linarith
  then show ?thesis
    unfolding e using lo hi by simp
qed

lemma fresnelB:
  "0 \<le> fresnel (- (7 / 25), - (1 / 20)) \<and> fresnel (- (7 / 25), - (1 / 20)) \<le> 1 / 10000"
proof -
  define z where "z = sphereZ (- (7 / 25), - (1 / 20))"
  have z: "918 / 1000 \<le> z" "z \<le> 919 / 1000"
    using zB by (simp_all add: z_def)
  then have z0: "max 0 z = z" "0 \<le> 1 - z"
    by simp_all
  have "fresnel (- (7 / 25), - (1 / 20)) = (1 - z) ^ 4"
    unfolding fresnel_def normalB viewDir_def pow_def z_def[symmetric]
    using z0 by (simp add: dot3_def)
  moreover have "(1 - z) ^ 4 \<le> (82 / 1000) ^ 4"
    using z by (intro power_mono) simp_all
  moreover have "(82 / 1000 :: real) ^ 4 \<le> 1 / 10000"
    by (simp add: power_divide)
  moreover have "0 \<le> (1 - z) ^ 4"
    by simp
  ultimately show ?thesis
    by linarith
qed

lemma occlusionB:
  "smoothstep sphereRadius (sphereRadius * (4 / 10)) (length2 (- (7 / 25), - (1 / 20))) = 1"
  using lengthB by (simp add: sphereRadius_def smoothstep_def clamp_def Let_def)

lemma shadowB:
  "smoothstep (- (7 / 10)) (4 / 10) (- (1 / 20)) = 845 / 1331"
  by (simp add: smoothstep_def clamp_def Let_def)

lemma refShapesB:
  "refShapes (- (7 / 25), - (1 / 20)) = 6 / 10"
  unfolding refShapes_def Let_def prod.case
  by (simp add: dash_def step_def)

lemma colorChannel_white:
  "colorChannel uv u t 0 0 1 =
     (specular uv u t * (15 / 10) + specVSoft uv u t * currentHighlightSize u t * (7 / 10)
        + specSoft uv u t * currentHighlightSize u t * (3 / 10) + fresnel uv * (2 / 10))
     * pulse u t
     * (smoothstep sphereRadius (sphereRadius * (4 / 10)) (length2 uv) * (4 / 10) + 6 / 10)
     * (smoothstep (- (7 / 10)) (4 / 10) (snd uv) * (3 / 10) + 7 / 10)"
  by (simp add: colorChannel_def Let_def mix_def)

lemma whiteB:
  assumes "anim u = PRESET_ANIMATIONS Speaking"
  shows "102 / 100 < colorChannel (- (7 / 25), - (1 / 20)) u 0 0 0 1
       \<and> colorChannel (- (7 / 25), - (1 / 20)) u 0 0 0 1 < 12 / 10"
proof -
  let ?uv = "(- (7 / 25), - (1 / 20)) :: vec2"
  define sV where "sV = specVSoft ?uv u 0"
  define sS where "sS = specSoft ?uv u 0"
  define sM where "sM = specMed ?uv u 0"
  define sH where "sH = specSharp ?uv u 0"
  define f where "f = fresnel ?uv"
  have b: "58 / 100 \<le> sV" "sV \<le> 63 / 100" "20 / 100 \<le> sS" "sS \<le> 25 / 100"
    "sM \<le> 1 / 100" "sH \<le> 1 / 100" "0 \<le> f" "f \<le> 1 / 10000"
    using specB[OF assms] fresnelB by (simp_all add: sV_def sS_def sM_def sH_def f_def)
  have "0 \<le> sM" "0 \<le> sH"
    by (simp_all add: sM_def sH_def specMed_def specSharp_def pow_nonneg)
  note b = b this
  have "colorChannel ?uv u 0 0 0 1 =
      ((sV * (6 / 5) * (4 / 10) + sS * (6 / 5) * (5 / 10) + sM * (6 / 5) * (35 / 100) + sH * (6 / 10))
         * (15 / 10) + sV * (6 / 5) * (7 / 10) + sS * (6 / 5) * (3 / 10) + f * (2 / 10))
      * 1 * (1 * (4 / 10) + 6 / 10) * (845 / 1331 * (3 / 10) + 7 / 10)"
    unfolding colorChannel_white specular_def speaking_size[OF assms] speaking_pulse[OF assms]
      occlusionB snd_conv shadowB sV_def sS_def sM_def sH_def f_def
    by simp
  then have e: "colorChannel ?uv u 0 0 0 1 =
      (sV * (39 / 25) + sS * (63 / 50) + sM * (63 / 100) + sH * (9 / 10) + f * (1 / 5))
        * (5926 / 6655)"
    by (simp add: algebra_simps)
  define X where "X = sV * (39 / 25) + sS * (63 / 50) + sM * (63 / 100) + sH * (9 / 10) + f * (1 / 5)"
  have X: "1156 / 1000 \<le> X" "X \<le> 1314 / 1000"
    unfolding X_def using b by linarith+
  have "colorChannel ?uv u 0 0 0 1 = X * (5926 / 6655)"
    unfolding e X_def ..
  then show ?thesis
    using X by simp
qed

lemma speaking_whiteOnBlack:
  "targetState Speaking None Map.empty (Some whiteOnBlack) noAnimation =
     \<lparr>baseColor = (0, 0, 0), midColor = (0, 0, 0), highlight' = (1, 1, 1),
      anim = PRESET_ANIMATIONS Speaking\<rparr>"
  by (simp add: targetState_def resolveColors_def whiteOnBlack_def mergeAnim_def noAnimation_def)

text \<open>
  The same effect below the displayable range: with a white highlight on black, the red
  channel at pixel B is 1.02 to 1.2 before the overlay, so both outputs are below 1 and
  the one with reflections is the lower.
\<close>

lemma overlay_darkens_displayed:
  "chan 0 (fst (shadeHard (600, 600) (- 0.28, - 0.05)
       (targetState Speaking None Map.empty (Some whiteOnBlack) noAnimation) 0
       (reflectionValue (RBool True))))
   < chan 0 (fst (shadeHard (600, 600) (- 0.28, - 0.05)
       (targetState Speaking None Map.empty (Some whiteOnBlack) noAnimation) 0
       (reflectionValue (RBool False))))
   \<and> chan 0 (fst (shadeHard (600, 600) (- 0.28, - 0.05)
       (targetState Speaking None Map.empty (Some whiteOnBlack) noAnimation) 0
       (reflectionValue (RBool False)))) < 1"
proof -
  let ?u = "targetState Speaking None Map.empty (Some whiteOnBlack) noAnimation"
  have an: "anim ?u = PRESET_ANIMATIONS Speaking"
    by (simp add: speaking_whiteOnBlack)
  define c where "c = colorChannel (- (7 / 25), - (1 / 20)) ?u 0 0 0 1"
  have c: "102 / 100 < c" "c < 12 / 10"
    using whiteB[OF an] by (simp_all add: c_def)
  have sc: "chan 0 (sceneColor (- (7 / 25), - (1 / 20)) ?u 0) = c"
    by (simp add: sceneColor_def speaking_whiteOnBlack[symmetric] c_def)
      (simp add: speaking_whiteOnBlack)
  have off: "chan 0 (fst (shadeHard (600, 600) (- (7 / 25), - (1 / 20)) ?u 0 0)) = toneMap c"
    by (simp add: shadeHard_def sphereB Let_def chan_toneMap3 sc)
  have on: "chan 0 (fst (shadeHard (600, 600) (- (7 / 25), - (1 / 20)) ?u 0 (6 / 10)))
            = toneMap (mix c 1 (9 / 25))"
    by (simp add: shadeHard_def sphereB Let_def chan_toneMap3 chan_mixWhite reflectHard_def
        refShapesB sc)
  have m: "mix c 1 (9 / 25) = c * (16 / 25) + 9 / 25"
    by (simp add: mix_def)
  have "0 \<le> mix c 1 (9 / 25)" "mix c 1 (9 / 25) < c"
    unfolding m using c by linarith+
  then have lt: "toneMap (mix c 1 (9 / 25)) < toneMap c"
    by (rule toneMap_strict)
  have "toneMap c < toneMap (12 / 10)"
    using c by (intro toneMap_strict) simp_all
  moreover have "toneMap (12 / 10) < 1"
    by (simp add: toneMap_def)
  ultimately have "toneMap c < 1"
    by linarith
  with lt show ?thesis
    using on off by simp
qed

end
